theory Spec2Isabelle
  imports Main
begin

section \<open>Data model\<close>

text \<open>
  The program is \<^verbatim>\<open>resourcemanager.go\<close> and the \<^verbatim>\<open>main\<close> file of policygopher.
  Go strings are \<^typ>\<open>string\<close>, slices are lists, a pointer that the code compares with
  \<^verbatim>\<open>nil\<close> or that may be \<^verbatim>\<open>nil\<close> when it is dereferenced is an \<^typ>\<open>'a option\<close>.
  Slices of pointers handed over by the client libraries are taken to hold no \<^verbatim>\<open>nil\<close>
  element.
\<close>

text \<open>A run-time panic of the Go program.\<close>

datatype panic = NilDereference | IndexOutOfRange

text \<open>\<^verbatim>\<open>type Row struct { Resource, Type, Role, Member string }\<close>\<close>

record Row =
  Resource :: string
  Type :: string
  Role :: string
  Member :: string

text \<open>
  Go's \<^verbatim>\<open>error\<close> values. \<open>Collab\<close> is an error handed back by an external
  collaborator (a client library, the file system); every other constructor is one
  \<^verbatim>\<open>errors.New(fmt.Sprintf(...))\<close> of the source, holding the arguments of its format
  string in their order.
\<close>

datatype error =
    Collab string
  | UriError string error
      \<comment> \<open>\<^verbatim>\<open>"uri[%s]: %v"\<close>\<close>
  | RowError Row error
      \<comment> \<open>\<^verbatim>\<open>"row: %#v, %v"\<close>\<close>
  | NoOrgIdError error
      \<comment> \<open>\<^verbatim>\<open>"Unable to identify OrgId, please specify on CLI or gcloud credentials: %v"\<close>\<close>
  | OrgIdFromProjectError string error
      \<comment> \<open>\<^verbatim>\<open>"Error getting OrgId from ProjectId %s: %v"\<close>\<close>
  | NoDefaultCredentials
      \<comment> \<open>\<^verbatim>\<open>"unable to get application default credentials, please specify credentials json"\<close>\<close>
  | StatError string error
      \<comment> \<open>\<^verbatim>\<open>"Unable to stat credential file %s: %v"\<close>\<close>
  | OpenError string error
      \<comment> \<open>\<^verbatim>\<open>"Error opening %s: %v"\<close>\<close>
  | CredentialsDataError string error
      \<comment> \<open>\<^verbatim>\<open>"Error getting credentials from data in %s: %v"\<close>\<close>
  | NoProjectInCredentials
      \<comment> \<open>\<^verbatim>\<open>"no project found in either application default credentials or json file"\<close>\<close>
  | NoOrgForProjectError string error
      \<comment> \<open>\<^verbatim>\<open>"Unable to get org for project %s: %v"\<close>\<close>
  | RenameError string string error
      \<comment> \<open>\<^verbatim>\<open>"Unable to move tmp.%s to %s: %v"\<close>\<close>
  | FlushError error
      \<comment> \<open>\<^verbatim>\<open>"Error flushing writer: %v"\<close>\<close>
  | CloseError error
      \<comment> \<open>\<^verbatim>\<open>"Error closing file: %v"\<close>\<close>

text \<open>\<^verbatim>\<open>iam.Role\<close>: the fields the program reads.\<close>

record iam_Role =
  Name :: string
  IncludedPermissions :: "string list"

text \<open>\<^verbatim>\<open>google.Credentials\<close>: the field the program reads.\<close>

record Credentials =
  ProjectID :: string

subsection \<open>The provider's two policy schemas and the canonical one\<close>

record V1Expr =
  v1_Description :: string
  v1_Expression :: string
  v1_Location :: string
  v1_Title :: string

record V2Expr =
  v2_Description :: string
  v2_Expression :: string
  v2_Location :: string
  v2_Title :: string

record V1Binding =
  v1_Condition :: "V1Expr option"
  v1_Members :: "string list"
  v1_Role :: string

record V2Binding =
  v2_Condition :: "V2Expr option"
  v2_Members :: "string list"
  v2_Role :: string

record V1Policy =
  v1_Bindings :: "V1Binding list"
  v1_Etag :: string

record V2Policy =
  v2_Bindings :: "V2Binding list"
  v2_Etag :: string

record Expr =
  Description :: string
  Expression :: string
  Location :: string
  Title :: string

record Binding =
  Condition :: "Expr option"
  Members :: "string list"
  Binding_Role :: string

record Policy =
  Bindings :: "Binding list"
  Etag :: string

subsection \<open>Resources of the hierarchy\<close>

record V1Project =
  v1_Name :: string
  v1_ProjectId :: string

record Project =
  Project_Name :: string
  ProjectId :: string

record V2Folder =
  Folder_Name :: string

record V1ResourceId =
  v1_Id :: string
  v1_Type :: string

record V1Ancestor =
  v1_ResourceId :: "V1ResourceId option"

record ResourceId =
  ResourceId_Id :: string
  ResourceId_Type :: string

record Ancestor =
  Ancestor_ResourceId :: "ResourceId option"

text \<open>
  \<^verbatim>\<open>convertAncestors\<close> takes an \<^verbatim>\<open>interface{}\<close> and tests its dynamic type:
  the value is a slice of \<^verbatim>\<open>*v1beta1.Ancestor\<close> or it has another shape.
\<close>

datatype ancestors_value = V1Ancestors "V1Ancestor list" | OtherShape

section \<open>External collaborators and observable effects\<close>

text \<open>
  The collaborators (client libraries, credential discovery, file system) are the fields
  of an environment: each is a function from the arguments of the call to what the call
  returns, an error being \<open>Inl\<close> or \<open>Some\<close>. A paginated listing returns the pages it
  delivers and the error, if any, that ends it. A write to the buffered writer is decided
  by what the writer accepted so far and by the new text.
\<close>

record env =
  newServiceV1 :: "error option"
  newServiceV2 :: "error option"
  newServiceIam :: "error option"
  rolesGet :: "string \<Rightarrow> error + iam_Role"
  findDefaultCredentials :: "error + Credentials"
  osStat :: "string \<Rightarrow> error option"
  readFile :: "string \<Rightarrow> error + string"
  credentialsFromJSON :: "string \<Rightarrow> error + Credentials"
  projectsGetAncestry :: "string \<Rightarrow> error + ancestors_value"
  foldersListPages :: "string \<Rightarrow> V2Folder list list \<times> error option"
  projectsListPages :: "string \<Rightarrow> V1Project list list \<times> error option"
  projectsGetIamPolicy :: "string \<Rightarrow> error + V1Policy"
  organizationsGetIamPolicy :: "string \<Rightarrow> error + V1Policy"
  foldersGetIamPolicy :: "string \<Rightarrow> error + V2Policy"
  osCreate :: "string \<Rightarrow> error option"
  fprintf :: "string list \<Rightarrow> string \<Rightarrow> error option"
  osRename :: "string \<Rightarrow> string \<Rightarrow> error option"
  writerFlush :: "string list \<Rightarrow> error option"
  fileClose :: "error option"

text \<open>The calls made to the collaborators, in the order they are made.\<close>

datatype call =
    NewServiceV1
  | NewServiceV2
  | NewServiceIam
  | RolesGet string
  | FindDefaultCredentials
  | OsStat string
  | ReadFile string
  | CredentialsFromJSON string
  | ProjectsGetAncestry string
  | FoldersListPages string
  | ProjectsListPages string
  | ProjectsGetIamPolicy string
  | OrganizationsGetIamPolicy string
  | FoldersGetIamPolicy string
  | OsCreate string
  | OsRename string string
  | WriterFlush
  | FileClose

text \<open>
  What \<^verbatim>\<open>logerr.Printf\<close> and \<^verbatim>\<open>log.Printf\<close> print: a formatted text, or a format
  with an error value among its arguments.
\<close>

datatype logline =
    LogText string
  | LogStd string
      \<comment> \<open>a line of the standard logger, \<^verbatim>\<open>log.Printf\<close>\<close>
  | LogFolderError string error
      \<comment> \<open>\<^verbatim>\<open>"Unable to get more info on folder %s: %v\n"\<close>\<close>
  | LogProjectError string error
      \<comment> \<open>\<^verbatim>\<open>"Unable to get more info on project %s: %v\n"\<close>\<close>
  | LogError error
      \<comment> \<open>\<^verbatim>\<open>"%v\n"\<close>\<close>

text \<open>
  The observable effects of a run: the calls made, the lines logged, the lines printed
  on standard output and the texts the buffered writer accepted.
\<close>

record world =
  calls :: "call list"
  errlog :: "logline list"
  stdout :: "string list"
  written :: "string list"

abbreviation newline :: string where
  "newline \<equiv> [CHR 0x0A]"

definition called :: "call \<Rightarrow> world \<Rightarrow> world" where
  "called c w = w\<lparr>calls := calls w @ [c]\<rparr>"

definition logged :: "logline \<Rightarrow> world \<Rightarrow> world" where
  "logged l w = w\<lparr>errlog := errlog w @ [l]\<rparr>"

definition printed :: "string \<Rightarrow> world \<Rightarrow> world" where
  "printed s w = w\<lparr>stdout := stdout w @ [s]\<rparr>"

text \<open>
  \<^verbatim>\<open>type resourceManager struct\<close>: the organization id and the role cache. The
  context and the three service handles are the environment.
\<close>

record resourceManager =
  orgId :: string
  roleMap :: "string \<rightharpoonup> iam_Role"

section \<open>Role resolution\<close>

text \<open>
  \<^verbatim>\<open>_getRoleByUri\<close>: a cached role is returned without a call; otherwise the role
  service is asked, and only a successful answer is stored, under the URI asked for.
\<close>

definition getRoleByUri ::
  "env \<Rightarrow> resourceManager \<Rightarrow> world \<Rightarrow> string \<Rightarrow> (error + iam_Role) \<times> resourceManager \<times> world" where
  "getRoleByUri e r w uri =
     (case roleMap r uri of
        Some role \<Rightarrow> (Inr role, r, w)
      | None \<Rightarrow>
          (case rolesGet e uri of
             Inl err \<Rightarrow> (Inl (UriError uri err), r, called (RolesGet uri) w)
           | Inr role \<Rightarrow>
               (Inr role, r\<lparr>roleMap := (roleMap r)(uri \<mapsto> role)\<rparr>, called (RolesGet uri) w)))"

text \<open>
  \<^verbatim>\<open>GetRole\<close>: for a row of type \<^verbatim>\<open>project\<close> or \<^verbatim>\<open>organization\<close> the URI
  \<^verbatim>\<open>fmt.Sprintf("%ss/%s/%s", row.Type, row.Resource, row.Role)\<close>, here \<open>tryUri\<close>, is
  tried first; when that fails, and for every other type, the role reference is looked up
  as it stands.
\<close>

definition tryUri :: "Row \<Rightarrow> string" where
  "tryUri row = Type row @ ''s/'' @ Resource row @ ''/'' @ Role row"

definition GetRole ::
  "env \<Rightarrow> resourceManager \<Rightarrow> world \<Rightarrow> Row \<Rightarrow> (error + iam_Role) \<times> resourceManager \<times> world" where
  "GetRole e r w row =
     (if Type row = ''project'' \<or> Type row = ''organization'' then
        (let try_uri = tryUri row in
         case getRoleByUri e r w try_uri of
           (Inr role, r', w') \<Rightarrow> (Inr role, r', w')
         | (Inl err, r', w') \<Rightarrow> getRoleByUri e r' w' (Role row))
      else getRoleByUri e r w (Role row))"

text \<open>\<^verbatim>\<open>GetRolePermissions\<close>: the permissions of the resolved role, or the wrapped error.\<close>

definition GetRolePermissions ::
  "env \<Rightarrow> resourceManager \<Rightarrow> world \<Rightarrow> Row \<Rightarrow> (error + string list) \<times> resourceManager \<times> world" where
  "GetRolePermissions e r w row =
     (case GetRole e r w row of
        (Inl err, r', w') \<Rightarrow> (Inl (RowError row err), r', w')
      | (Inr role, r', w') \<Rightarrow> (Inr (IncludedPermissions role), r', w'))"

section \<open>Policy normalisation\<close>

text \<open>The zero values \<^verbatim>\<open>&Expr{}\<close>, \<^verbatim>\<open>&Binding{}\<close> and \<^verbatim>\<open>&Policy{}\<close>.\<close>

definition zero_Expr :: Expr where
  "zero_Expr = \<lparr>Description = [], Expression = [], Location = [], Title = []\<rparr>"

definition zero_Binding :: Binding where
  "zero_Binding = \<lparr>Condition = None, Members = [], Binding_Role = []\<rparr>"

definition zero_Policy :: Policy where
  "zero_Policy = \<lparr>Bindings = [], Etag = []\<rparr>"

text \<open>
  \<^verbatim>\<open>func (e *Expr) convertV1(expr *v1beta1.Expr)\<close> and its V2 twin read the fields of
  \<^verbatim>\<open>expr\<close>: a \<^verbatim>\<open>nil\<close> argument is a nil dereference.
\<close>

definition Expr_convertV1 :: "Expr \<Rightarrow> V1Expr option \<Rightarrow> panic + Expr" where
  "Expr_convertV1 e expr =
     (case expr of
        None \<Rightarrow> Inl NilDereference
      | Some x \<Rightarrow>
          Inr (e\<lparr>Description := v1_Description x, Expression := v1_Expression x,
                 Location := v1_Location x, Title := v1_Title x\<rparr>))"

definition Expr_convertV2 :: "Expr \<Rightarrow> V2Expr option \<Rightarrow> panic + Expr" where
  "Expr_convertV2 e expr =
     (case expr of
        None \<Rightarrow> Inl NilDereference
      | Some x \<Rightarrow>
          Inr (e\<lparr>Description := v2_Description x, Expression := v2_Expression x,
                 Location := v2_Location x, Title := v2_Title x\<rparr>))"

text \<open>
  \<^verbatim>\<open>func (b *Binding) convertV1(binding *v1beta1.Binding)\<close>: members and role are
  copied; the test before the copy of the condition is \<^verbatim>\<open>b.Condition != nil\<close>, on
  the receiver.
\<close>

definition Binding_convertV1 :: "Binding \<Rightarrow> V1Binding \<Rightarrow> panic + Binding" where
  "Binding_convertV1 b binding =
     (let b1 = b\<lparr>Members := v1_Members binding, Binding_Role := v1_Role binding\<rparr> in
      if Condition b1 \<noteq> None then
        (case Expr_convertV1 zero_Expr (v1_Condition binding) of
           Inl p \<Rightarrow> Inl p
         | Inr c \<Rightarrow> Inr (b1\<lparr>Condition := Some c\<rparr>))
      else Inr b1)"

definition Binding_convertV2 :: "Binding \<Rightarrow> V2Binding \<Rightarrow> panic + Binding" where
  "Binding_convertV2 b binding =
     (let b1 = b\<lparr>Members := v2_Members binding, Binding_Role := v2_Role binding\<rparr> in
      if Condition b1 \<noteq> None then
        (case Expr_convertV2 zero_Expr (v2_Condition binding) of
           Inl p \<Rightarrow> Inl p
         | Inr c \<Rightarrow> Inr (b1\<lparr>Condition := Some c\<rparr>))
      else Inr b1)"

text \<open>
  The loop of \<^verbatim>\<open>convertBindingsV1\<close> and that of \<^verbatim>\<open>convertBindingsV2\<close>: every element is
  a fresh \<^verbatim>\<open>&Binding{}\<close> converted from the source binding at the same index.
\<close>

fun convertEachV1 :: "V1Binding list \<Rightarrow> panic + Binding list" where
  "convertEachV1 [] = Inr []"
| "convertEachV1 (b # bs) =
     (case Binding_convertV1 zero_Binding b of
        Inl p \<Rightarrow> Inl p
      | Inr b' \<Rightarrow> (case convertEachV1 bs of Inl p \<Rightarrow> Inl p | Inr bs' \<Rightarrow> Inr (b' # bs')))"

fun convertEachV2 :: "V2Binding list \<Rightarrow> panic + Binding list" where
  "convertEachV2 [] = Inr []"
| "convertEachV2 (b # bs) =
     (case Binding_convertV2 zero_Binding b of
        Inl p \<Rightarrow> Inl p
      | Inr b' \<Rightarrow> (case convertEachV2 bs of Inl p \<Rightarrow> Inl p | Inr bs' \<Rightarrow> Inr (b' # bs')))"

definition Policy_convertBindingsV1 :: "Policy \<Rightarrow> V1Binding list \<Rightarrow> panic + Policy" where
  "Policy_convertBindingsV1 p bindings =
     (case convertEachV1 bindings of Inl x \<Rightarrow> Inl x | Inr bs \<Rightarrow> Inr (p\<lparr>Bindings := bs\<rparr>))"

definition Policy_convertBindingsV2 :: "Policy \<Rightarrow> V2Binding list \<Rightarrow> panic + Policy" where
  "Policy_convertBindingsV2 p bindings =
     (case convertEachV2 bindings of Inl x \<Rightarrow> Inl x | Inr bs \<Rightarrow> Inr (p\<lparr>Bindings := bs\<rparr>))"

definition Policy_convertV1 :: "Policy \<Rightarrow> V1Policy \<Rightarrow> panic + Policy" where
  "Policy_convertV1 p policy = Policy_convertBindingsV1 (p\<lparr>Etag := v1_Etag policy\<rparr>) (v1_Bindings policy)"

definition Policy_convertV2 :: "Policy \<Rightarrow> V2Policy \<Rightarrow> panic + Policy" where
  "Policy_convertV2 p policy = Policy_convertBindingsV2 (p\<lparr>Etag := v2_Etag policy\<rparr>) (v2_Bindings policy)"

text \<open>
  The three policy getters. Each returns the pair of the source, a policy and an error:
  on an error of the call the policy is \<^verbatim>\<open>&Policy{}\<close>.
\<close>

definition GetIamPolicyForProject ::
  "env \<Rightarrow> world \<Rightarrow> string \<Rightarrow> panic + ((Policy \<times> error option) \<times> world)" where
  "GetIamPolicyForProject e w projectId =
     (let w' = called (ProjectsGetIamPolicy projectId) w in
      case projectsGetIamPolicy e projectId of
        Inl err \<Rightarrow> Inr ((zero_Policy, Some err), w')
      | Inr policyResponse \<Rightarrow>
          (case Policy_convertV1 zero_Policy policyResponse of
             Inl p \<Rightarrow> Inl p
           | Inr policy \<Rightarrow> Inr ((policy, None), w')))"

definition GetIamPolicyForOrganization ::
  "env \<Rightarrow> resourceManager \<Rightarrow> world \<Rightarrow> panic + ((Policy \<times> error option) \<times> world)" where
  "GetIamPolicyForOrganization e r w =
     (let name = ''organizations/'' @ orgId r;
          w' = called (OrganizationsGetIamPolicy name) w in
      case organizationsGetIamPolicy e name of
        Inl err \<Rightarrow> Inr ((zero_Policy, Some err), w')
      | Inr policyResponse \<Rightarrow>
          (case Policy_convertV1 zero_Policy policyResponse of
             Inl p \<Rightarrow> Inl p
           | Inr policy \<Rightarrow> Inr ((policy, None), w')))"

definition GetIamPolicyForFolder ::
  "env \<Rightarrow> world \<Rightarrow> string \<Rightarrow> panic + ((Policy \<times> error option) \<times> world)" where
  "GetIamPolicyForFolder e w folderId =
     (let w' = called (FoldersGetIamPolicy folderId) w in
      case foldersGetIamPolicy e folderId of
        Inl err \<Rightarrow> Inr ((zero_Policy, Some err), w')
      | Inr policyResponse \<Rightarrow>
          (case Policy_convertV2 zero_Policy policyResponse of
             Inl p \<Rightarrow> Inl p
           | Inr policy \<Rightarrow> Inr ((policy, None), w')))"

section \<open>Flattening\<close>

text \<open>
  \<^verbatim>\<open>addBindings(bindings, rows, resource, resType)\<close>: the inner loop appends one row
  for each member of a binding, the outer loop runs over the bindings.
\<close>

fun addMembers :: "string list \<Rightarrow> Row list \<Rightarrow> string \<Rightarrow> string \<Rightarrow> string \<Rightarrow> Row list" where
  "addMembers [] rows resource resType role = rows"
| "addMembers (m # ms) rows resource resType role =
     addMembers ms
       (rows @ [\<lparr>Resource = resource, Type = resType, Role = role, Member = m\<rparr>])
       resource resType role"

fun addBindings :: "Binding list \<Rightarrow> Row list \<Rightarrow> string \<Rightarrow> string \<Rightarrow> Row list" where
  "addBindings [] rows resource resType = rows"
| "addBindings (b # bs) rows resource resType =
     addBindings bs (addMembers (Members b) rows resource resType (Binding_Role b)) resource resType"

section \<open>Hierarchy\<close>

text \<open>
  \<^verbatim>\<open>FoldersList\<close> and \<^verbatim>\<open>ProjectsListByFilter\<close> drain the pages of a listing into one
  slice; an error of the listing returns the empty slice and the error. The source sets
  the parent, or the filter, on the request only when it is not empty: the listing is
  given the string as it is, the empty string standing for a request without it.
\<close>

definition FoldersList :: "env \<Rightarrow> world \<Rightarrow> string \<Rightarrow> (V2Folder list \<times> error option) \<times> world" where
  "FoldersList e w parent =
     (let w' = called (FoldersListPages parent) w in
      case foldersListPages e parent of
        (pages, Some err) \<Rightarrow> (([], Some err), w')
      | (pages, None) \<Rightarrow> ((concat pages, None), w'))"

definition ProjectsListByFilter ::
  "env \<Rightarrow> world \<Rightarrow> string \<Rightarrow> (Project list \<times> error option) \<times> world" where
  "ProjectsListByFilter e w filter_string =
     (let w' = called (ProjectsListPages filter_string) w in
      case projectsListPages e filter_string of
        (pages, Some err) \<Rightarrow> (([], Some err), w')
      | (pages, None) \<Rightarrow>
          ((concat (map (map (\<lambda>p. \<lparr>Project_Name = v1_Name p, ProjectId = v1_ProjectId p\<rparr>)) pages),
            None), w'))"

definition ProjectsList ::
  "env \<Rightarrow> resourceManager \<Rightarrow> world \<Rightarrow> (Project list \<times> error option) \<times> world" where
  "ProjectsList e r w =
     ProjectsListByFilter e w (''parent.type:organization parent.id:'' @ orgId r)"

text \<open>
  \<^verbatim>\<open>convertAncestors\<close>: a slice of provider ancestors is converted element by element,
  reading \<^verbatim>\<open>a.ResourceId.Id\<close>; any other shape leaves \<^verbatim>\<open>results\<close> the nil slice.
\<close>

fun convertEachAncestor :: "V1Ancestor list \<Rightarrow> panic + Ancestor list" where
  "convertEachAncestor [] = Inr []"
| "convertEachAncestor (a # as) =
     (case v1_ResourceId a of
        None \<Rightarrow> Inl NilDereference
      | Some rid \<Rightarrow>
          (case convertEachAncestor as of
             Inl p \<Rightarrow> Inl p
           | Inr results \<Rightarrow>
               Inr (\<lparr>Ancestor_ResourceId =
                       Some \<lparr>ResourceId_Id = v1_Id rid, ResourceId_Type = v1_Type rid\<rparr>\<rparr>
                    # results)))"

definition convertAncestors :: "ancestors_value \<Rightarrow> panic + Ancestor list" where
  "convertAncestors ancestors =
     (case ancestors of
        V1Ancestors v1 \<Rightarrow> convertEachAncestor v1
      | OtherShape \<Rightarrow> Inr [])"

definition GetAncestryForProject ::
  "env \<Rightarrow> world \<Rightarrow> string \<Rightarrow> panic + ((Ancestor list \<times> error option) \<times> world)" where
  "GetAncestryForProject e w projectId =
     (let w' = called (ProjectsGetAncestry projectId) w in
      case projectsGetAncestry e projectId of
        Inl err \<Rightarrow> Inr (([], Some err), w')
      | Inr garesp \<Rightarrow>
          (case convertAncestors garesp of
             Inl p \<Rightarrow> Inl p
           | Inr results \<Rightarrow> Inr ((results, None), w')))"

text \<open>
  \<^verbatim>\<open>GetOrgIdFromProjectId\<close> reads \<^verbatim>\<open>thisProjectAncestry[len(thisProjectAncestry)-1]\<close>:
  on an empty ancestry the index is \<open>-1\<close> and the read panics.
\<close>

definition GetOrgIdFromProjectId ::
  "env \<Rightarrow> resourceManager \<Rightarrow> world \<Rightarrow> string \<Rightarrow> panic + (error option \<times> resourceManager \<times> world)" where
  "GetOrgIdFromProjectId e r w projectId =
     (case GetAncestryForProject e w projectId of
        Inl p \<Rightarrow> Inl p
      | Inr ((thisProjectAncestry, Some err), w') \<Rightarrow>
          Inr (Some (NoOrgForProjectError projectId err), r, w')
      | Inr ((thisProjectAncestry, None), w') \<Rightarrow>
          (if int (length thisProjectAncestry) - 1 < 0 then Inl IndexOutOfRange
           else
             (case Ancestor_ResourceId (thisProjectAncestry ! (length thisProjectAncestry - 1)) of
                None \<Rightarrow> Inl NilDereference
              | Some rid \<Rightarrow>
                  Inr (None, r\<lparr>orgId := ResourceId_Id rid\<rparr>,
                       printed (''OrgId of '' @ ResourceId_Id rid @ '' found from Project ID ''
                                @ projectId @ newline) w'))))"

text \<open>
  \<^verbatim>\<open>getProjectIdFromCredentials\<close>: the default credentials first, then the credentials
  file.
\<close>

definition getProjectIdFromCredentials ::
  "env \<Rightarrow> world \<Rightarrow> string \<Rightarrow> (error + string) \<times> world" where
  "getProjectIdFromCredentials e w credentialsPath =
     (let w1 = called FindDefaultCredentials w;
          found = (case findDefaultCredentials e of
                     Inl err \<Rightarrow> None
                   | Inr credentials \<Rightarrow>
                       if ProjectID credentials \<noteq> [] then Some (ProjectID credentials) else None) in
      case found of
        Some pid \<Rightarrow>
          (Inr pid, printed (''Project ID found from default credentials: '' @ pid @ newline) w1)
      | None \<Rightarrow>
          if credentialsPath = [] then (Inl NoDefaultCredentials, w1)
          else
            (let w2 = called (OsStat credentialsPath) w1 in
             case osStat e credentialsPath of
               Some err \<Rightarrow> (Inl (StatError credentialsPath err), w2)
             | None \<Rightarrow>
                 (let w3 = called (ReadFile credentialsPath) w2 in
                  case readFile e credentialsPath of
                    Inl err \<Rightarrow> (Inl (OpenError credentialsPath err), w3)
                  | Inr data \<Rightarrow>
                      (let w4 = called (CredentialsFromJSON data) w3 in
                       case credentialsFromJSON e data of
                         Inl err \<Rightarrow> (Inl (CredentialsDataError credentialsPath err), w4)
                       | Inr credentials \<Rightarrow>
                           if ProjectID credentials = [] then (Inl NoProjectInCredentials, w4)
                           else
                             (Inr (ProjectID credentials),
                              printed (''Project ID found from supplied credentials: ''
                                       @ ProjectID credentials @ newline) w4)))))"

text \<open>
  \<^verbatim>\<open>NewResourceManager\<close>: the three services are created, then the organization id
  is derived when none was given. The error of the ancestry step is formatted with the
  local \<^verbatim>\<open>p\<close>, which holds the project id only when it came from the credentials.
\<close>

definition NewResourceManager ::
  "env \<Rightarrow> world \<Rightarrow> string \<Rightarrow> string \<Rightarrow> string \<Rightarrow> panic + ((error + resourceManager) \<times> world)" where
  "NewResourceManager e w credentialsPath orgId0 projectId0 =
     (let w1 = called NewServiceV1 w in
      case newServiceV1 e of
        Some err \<Rightarrow> Inr (Inl err, w1)
      | None \<Rightarrow>
     (let w2 = called NewServiceV2 w1 in
      case newServiceV2 e of
        Some err \<Rightarrow> Inr (Inl err, w2)
      | None \<Rightarrow>
     (let w3 = called NewServiceIam w2 in
      case newServiceIam e of
        Some err \<Rightarrow> Inr (Inl err, w3)
      | None \<Rightarrow>
     (let r = \<lparr>orgId = orgId0, roleMap = Map.empty\<rparr> in
      if orgId r = [] then
        (let w4 = printed (''OrgId not specified, checking by ProjectId'' @ newline) w3;
             chosen =
               (if projectId0 = [] then
                  (case getProjectIdFromCredentials e
                          (printed (''ProjectId not specified, getting ProjectId from credentials''
                                    @ newline) w4)
                          credentialsPath of
                     (Inl err, w5) \<Rightarrow> (Inl (NoOrgIdError err), w5)
                   | (Inr p, w5) \<Rightarrow> (Inr (p, p), w5))
                else (Inr ([], projectId0), w4)) in
         case chosen of
           (Inl err, w5) \<Rightarrow> Inr (Inl err, w5)
         | (Inr (p, projectId), w5) \<Rightarrow>
             (case GetOrgIdFromProjectId e r w5 projectId of
                Inl pn \<Rightarrow> Inl pn
              | Inr (Some err, r', w6) \<Rightarrow> Inr (Inl (OrgIdFromProjectError p err), w6)
              | Inr (None, r', w6) \<Rightarrow> Inr (Inr r', w6)))
      else Inr (Inr r, w3)))))"

section \<open>Aggregation\<close>

text \<open>
  The loop of \<^verbatim>\<open>GetFolderPolicyRows\<close> and that of \<^verbatim>\<open>GetProjectPolicyRows\<close>: a policy that
  cannot be fetched is logged and ends the loop, the rows collected so far being returned
  beside the error.
\<close>

fun folderRows ::
  "env \<Rightarrow> V2Folder list \<Rightarrow> Row list \<Rightarrow> world \<Rightarrow> panic + ((Row list \<times> error option) \<times> world)" where
  "folderRows e [] rows w = Inr ((rows, None), w)"
| "folderRows e (f # fs) rows w =
     (case GetIamPolicyForFolder e w (Folder_Name f) of
        Inl p \<Rightarrow> Inl p
      | Inr ((policy, Some err), w') \<Rightarrow>
          Inr ((rows, Some err), logged (LogFolderError (Folder_Name f) err) w')
      | Inr ((policy, None), w') \<Rightarrow>
          folderRows e fs (addBindings (Bindings policy) rows (Folder_Name f) ''folder'') w')"

fun projectRows ::
  "env \<Rightarrow> Project list \<Rightarrow> Row list \<Rightarrow> world \<Rightarrow> panic + ((Row list \<times> error option) \<times> world)" where
  "projectRows e [] rows w = Inr ((rows, None), w)"
| "projectRows e (p # ps) rows w =
     (case GetIamPolicyForProject e w (ProjectId p) of
        Inl pn \<Rightarrow> Inl pn
      | Inr ((policy, Some err), w') \<Rightarrow>
          Inr ((rows, Some err), logged (LogProjectError (Project_Name p) err) w')
      | Inr ((policy, None), w') \<Rightarrow>
          projectRows e ps (addBindings (Bindings policy) rows (Project_Name p) ''project'') w')"

definition GetFolderPolicyRows ::
  "env \<Rightarrow> resourceManager \<Rightarrow> world \<Rightarrow> panic + ((Row list \<times> error option) \<times> world)" where
  "GetFolderPolicyRows e r w =
     (case FoldersList e w (''organizations/'' @ orgId r) of
        ((folders, Some err), w') \<Rightarrow> Inr (([], Some err), w')
      | ((folders, None), w') \<Rightarrow> folderRows e folders [] w')"

definition GetProjectPolicyRows ::
  "env \<Rightarrow> resourceManager \<Rightarrow> world \<Rightarrow> panic + ((Row list \<times> error option) \<times> world)" where
  "GetProjectPolicyRows e r w =
     (case ProjectsList e r w of
        ((projects, Some err), w') \<Rightarrow> Inr (([], Some err), w')
      | ((projects, None), w') \<Rightarrow> projectRows e projects [] w')"

definition GetOrgPolicyRows ::
  "env \<Rightarrow> resourceManager \<Rightarrow> world \<Rightarrow> panic + ((Row list \<times> error option) \<times> world)" where
  "GetOrgPolicyRows e r w =
     (case GetIamPolicyForOrganization e r w of
        Inl p \<Rightarrow> Inl p
      | Inr ((orgPolicy, Some err), w') \<Rightarrow> Inr (([], Some err), w')
      | Inr ((orgPolicy, None), w') \<Rightarrow>
          Inr ((addBindings (Bindings orgPolicy) [] (orgId r) ''organization'', None), w'))"

text \<open>
  \<^verbatim>\<open>GetAllPolicyRows\<close> returns a pointer to the rows and an error: \<^verbatim>\<open>nil\<close> and the
  error when a tier fails, the concatenation of the three tiers otherwise.
\<close>

definition GetAllPolicyRows ::
  "env \<Rightarrow> resourceManager \<Rightarrow> world \<Rightarrow> panic + ((Row list option \<times> error option) \<times> world)" where
  "GetAllPolicyRows e r w =
     (case GetOrgPolicyRows e r w of
        Inl p \<Rightarrow> Inl p
      | Inr ((newRows, Some err), w1) \<Rightarrow> Inr ((None, Some err), w1)
      | Inr ((newRows, None), w1) \<Rightarrow>
     (let allRows = [] @ newRows in
      case GetFolderPolicyRows e r w1 of
        Inl p \<Rightarrow> Inl p
      | Inr ((newRows, Some err), w2) \<Rightarrow> Inr ((None, Some err), w2)
      | Inr ((newRows, None), w2) \<Rightarrow>
     (let allRows = allRows @ newRows in
      case GetProjectPolicyRows e r w2 of
        Inl p \<Rightarrow> Inl p
      | Inr ((newRows, Some err), w3) \<Rightarrow> Inr ((None, Some err), w3)
      | Inr ((newRows, None), w3) \<Rightarrow> Inr ((Some (allRows @ newRows), None), w3))))"

section \<open>Output\<close>

text \<open>
  The loop of \<^verbatim>\<open>Row.Print\<close> writes one line per permission, formatted by
  \<^verbatim>\<open>"%s,%s,%s,%s,%s\n"\<close> from resource, type, member, role and permission (here
  \<open>csvLine\<close>), and stops at the first write that fails. The error of the write is a
  variable of the loop body; the error \<^verbatim>\<open>Print\<close> returns is the one of
  \<^verbatim>\<open>GetRolePermissions\<close>.
\<close>

definition csvLine :: "Row \<Rightarrow> string \<Rightarrow> string" where
  "csvLine r p = Resource r @ '','' @ Type r @ '','' @ Member r @ '','' @ Role r @ '','' @ p @ newline"

fun printPermissions :: "env \<Rightarrow> Row \<Rightarrow> string list \<Rightarrow> world \<Rightarrow> world" where
  "printPermissions e r [] w = w"
| "printPermissions e r (p # ps) w =
     (let line = csvLine r p in
      case fprintf e (written w) line of
        Some err \<Rightarrow> w
      | None \<Rightarrow> printPermissions e r ps (w\<lparr>written := written w @ [line]\<rparr>))"

definition Row_Print ::
  "env \<Rightarrow> resourceManager \<Rightarrow> world \<Rightarrow> Row \<Rightarrow> error option \<times> resourceManager \<times> world" where
  "Row_Print e rm w r =
     (case GetRolePermissions e rm w r of
        (Inl err, rm', w') \<Rightarrow>
          (Some err, rm',
           printPermissions e r [''UNKNOWN'']
             (logged (LogText (''Error getting permissions for '' @ Role r @ newline)) w'))
      | (Inr permissions, rm', w') \<Rightarrow> (None, rm', printPermissions e r permissions w'))"

text \<open>The loop of \<^verbatim>\<open>printToCsv\<close> over the rows: an error of \<^verbatim>\<open>Print\<close> is logged.\<close>

fun printRows :: "env \<Rightarrow> resourceManager \<Rightarrow> world \<Rightarrow> Row list \<Rightarrow> resourceManager \<times> world" where
  "printRows e rm w [] = (rm, w)"
| "printRows e rm w (row # rows) =
     (case Row_Print e rm w row of
        (Some err, rm', w') \<Rightarrow> printRows e rm' (logged (LogError err) w') rows
      | (None, rm', w') \<Rightarrow> printRows e rm' w' rows)"

text \<open>
  \<^verbatim>\<open>printToCsv\<close>. The two \<^verbatim>\<open>timeTrack\<close> calls, which log elapsed time, are left
  out. The writer is new, so it has accepted nothing when the header is written.
\<close>

definition printToCsv ::
  "env \<Rightarrow> world \<Rightarrow> string \<Rightarrow> string \<Rightarrow> string \<Rightarrow> string \<Rightarrow> panic + (error option \<times> world)" where
  "printToCsv e w filename credentialsPath orgId0 projectId0 =
     (let w1 = called (OsStat filename) w in
      case osStat e filename of
        None \<Rightarrow>
          Inr (None, logged (LogStd (''Fils '' @ filename @ '' found, skipping export roles'')) w1)
      | Some notFound \<Rightarrow>
     (let w2 = called (OsCreate (''tmp.'' @ filename)) w1 in
      case osCreate e (''tmp.'' @ filename) of
        Some err \<Rightarrow> Inr (Some err, w2)
      | None \<Rightarrow>
     (let header = ''Resource,Type,Member,Role,Permission'' @ newline in
      case fprintf e [] header of
        Some err \<Rightarrow> Inr (Some err, w2\<lparr>written := []\<rparr>)
      | None \<Rightarrow>
     (case NewResourceManager e (w2\<lparr>written := [header]\<rparr>) credentialsPath orgId0 projectId0 of
        Inl p \<Rightarrow> Inl p
      | Inr (Inl err, w3) \<Rightarrow> Inr (Some err, w3)
      | Inr (Inr resman, w3) \<Rightarrow>
     (case GetAllPolicyRows e resman w3 of
        Inl p \<Rightarrow> Inl p
      | Inr ((allRows, Some err), w4) \<Rightarrow> Inr (Some err, w4)
      | Inr ((None, None), w4) \<Rightarrow> Inl NilDereference
      | Inr ((Some rows, None), w4) \<Rightarrow>
     (case printRows e resman (printed (''Printing CSV'' @ newline) w4) rows of
        (resman', w5) \<Rightarrow>
     (let w6 = called (OsRename (''tmp.'' @ filename) filename) w5 in
      case osRename e (''tmp.'' @ filename) filename of
        Some err \<Rightarrow> Inr (Some (RenameError filename filename err), w6)
      | None \<Rightarrow>
     (let w7 = called WriterFlush w6 in
      case writerFlush e (written w7) of
        Some err \<Rightarrow> Inr (Some (FlushError err), w7)
      | None \<Rightarrow>
     (let w8 = called FileClose w7 in
      case fileClose e of
        Some err \<Rightarrow> Inr (Some (CloseError err), w8)
      | None \<Rightarrow> Inr (None, w8))))))))))"

section \<open>Notions used in the statements\<close>

text \<open>
  A URI is unresolvable in a state of the cache when it is not cached and the role
  service fails on it.
\<close>

definition unresolvable :: "env \<Rightarrow> resourceManager \<Rightarrow> string \<Rightarrow> bool" where
  "unresolvable e r uri = (roleMap r uri = None \<and> isl (rolesGet e uri))"

text \<open>The URI whose lookup answers a resolution that succeeds.\<close>

definition usedUri :: "env \<Rightarrow> resourceManager \<Rightarrow> Row \<Rightarrow> string" where
  "usedUri e r row =
     (if (Type row = ''project'' \<or> Type row = ''organization'') \<and> \<not> unresolvable e r (tryUri row)
      then tryUri row else Role row)"

text \<open>The rows of a list of bindings, as a comprehension: one row per binding and member.\<close>

definition rowOf :: "string \<Rightarrow> string \<Rightarrow> string \<Rightarrow> string \<Rightarrow> Row" where
  "rowOf resource resType role m = \<lparr>Resource = resource, Type = resType, Role = role, Member = m\<rparr>"

definition flatten :: "Binding list \<Rightarrow> string \<Rightarrow> string \<Rightarrow> Row list" where
  "flatten bindings resource resType =
     concat (map (\<lambda>b. map (rowOf resource resType (Binding_Role b)) (Members b)) bindings)"

text \<open>What the two conversions make of a source binding when the receiver is fresh.\<close>

definition normalV1 :: "V1Binding \<Rightarrow> Binding" where
  "normalV1 b = \<lparr>Condition = None, Members = v1_Members b, Binding_Role = v1_Role b\<rparr>"

definition normalV2 :: "V2Binding \<Rightarrow> Binding" where
  "normalV2 b = \<lparr>Condition = None, Members = v2_Members b, Binding_Role = v2_Role b\<rparr>"

text \<open>
  The folders and projects the listings report for the organization of a resource
  manager, and the failures of the collaborators on the calls an aggregation makes: the
  organization's policy, the two listings, the policy of a listed folder or project.
\<close>

definition listedFolders :: "env \<Rightarrow> resourceManager \<Rightarrow> V2Folder list" where
  "listedFolders e r =
     (case foldersListPages e (''organizations/'' @ orgId r) of
        (pages, None) \<Rightarrow> concat pages
      | (pages, Some err) \<Rightarrow> [])"

definition listedProjects :: "env \<Rightarrow> resourceManager \<Rightarrow> V1Project list" where
  "listedProjects e r =
     (case projectsListPages e (''parent.type:organization parent.id:'' @ orgId r) of
        (pages, None) \<Rightarrow> concat pages
      | (pages, Some err) \<Rightarrow> [])"

definition orgFails :: "env \<Rightarrow> resourceManager \<Rightarrow> error \<Rightarrow> bool" where
  "orgFails e r err \<longleftrightarrow> organizationsGetIamPolicy e (''organizations/'' @ orgId r) = Inl err"

definition folderFails :: "env \<Rightarrow> resourceManager \<Rightarrow> error \<Rightarrow> bool" where
  "folderFails e r err \<longleftrightarrow>
     snd (foldersListPages e (''organizations/'' @ orgId r)) = Some err
     \<or> (\<exists>f \<in> set (listedFolders e r). foldersGetIamPolicy e (Folder_Name f) = Inl err)"

definition projectFails :: "env \<Rightarrow> resourceManager \<Rightarrow> error \<Rightarrow> bool" where
  "projectFails e r err \<longleftrightarrow>
     snd (projectsListPages e (''parent.type:organization parent.id:'' @ orgId r)) = Some err
     \<or> (\<exists>p \<in> set (listedProjects e r). projectsGetIamPolicy e (v1_ProjectId p) = Inl err)"

definition collaboratorFails :: "env \<Rightarrow> resourceManager \<Rightarrow> error \<Rightarrow> bool" where
  "collaboratorFails e r err \<longleftrightarrow> orgFails e r err \<or> folderFails e r err \<or> projectFails e r err"

text \<open>The kinds of calls to the collaborators.\<close>

fun credentialCall :: "call \<Rightarrow> bool" where
  "credentialCall FindDefaultCredentials = True"
| "credentialCall (OsStat path) = True"
| "credentialCall (ReadFile path) = True"
| "credentialCall (CredentialsFromJSON data) = True"
| "credentialCall c = False"

fun listingCall :: "call \<Rightarrow> bool" where
  "listingCall (FoldersListPages parent) = True"
| "listingCall (ProjectsListPages filter_string) = True"
| "listingCall (ProjectsGetIamPolicy projectId) = True"
| "listingCall (OrganizationsGetIamPolicy name) = True"
| "listingCall (FoldersGetIamPolicy folderId) = True"
| "listingCall c = False"

text \<open>
  A cache is consistent with the role service when every role it holds is the one the
  service returns for that URI; the cache of a new resource manager is empty.
\<close>

definition consistent :: "env \<Rightarrow> resourceManager \<Rightarrow> bool" where
  "consistent e r \<longleftrightarrow> (\<forall>uri role. roleMap r uri = Some role \<longrightarrow> rolesGet e uri = Inr role)"

text \<open>A row fails to resolve when the role service fails on each of its candidate URIs.\<close>

definition unresolved :: "env \<Rightarrow> Row \<Rightarrow> bool" where
  "unresolved e row \<longleftrightarrow>
     ((Type row = ''project'' \<or> Type row = ''organization'') \<longrightarrow> isl (rolesGet e (tryUri row)))
     \<and> isl (rolesGet e (Role row))"

text \<open>The permissions printed for a row, read off the role service without the cache.\<close>

definition permissionsOf :: "env \<Rightarrow> Row \<Rightarrow> string list" where
  "permissionsOf e row =
     (if unresolved e row then [''UNKNOWN'']
      else if (Type row = ''project'' \<or> Type row = ''organization'') \<and> \<not> isl (rolesGet e (tryUri row))
      then IncludedPermissions (projr (rolesGet e (tryUri row)))
      else IncludedPermissions (projr (rolesGet e (Role row))))"

section \<open>Concrete runs\<close>

text \<open>
  An organization \<open>O\<close> with one binding, three folders without bindings reported on two
  pages, one project \<open>P\<close> with one binding, and three roles known to the role service.
\<close>

definition world0 :: world where
  "world0 = \<lparr>calls = [], errlog = [], stdout = [], written = []\<rparr>"

definition rolesOnly :: "(string \<times> iam_Role) list \<Rightarrow> string \<Rightarrow> error + iam_Role" where
  "rolesOnly table uri =
     (case map_of table uri of None \<Rightarrow> Inl (Collab ''not found'') | Some role \<Rightarrow> Inr role)"

definition viewer :: iam_Role where
  "viewer = \<lparr>Name = ''roles/viewer'', IncludedPermissions = [''permA'', ''permB'']\<rparr>"

definition editor :: iam_Role where
  "editor = \<lparr>Name = ''roles/editor'', IncludedPermissions = [''permC'']\<rparr>"

definition myrole :: iam_Role where
  "myrole = \<lparr>Name = ''projects/P/roles/myrole'', IncludedPermissions = [''permD'']\<rparr>"

definition env_base :: env where
  "env_base =
     \<lparr>newServiceV1 = None, newServiceV2 = None, newServiceIam = None,
      rolesGet = rolesOnly [(''roles/viewer'', viewer), (''roles/editor'', editor),
                            (''projects/P/roles/myrole'', myrole)],
      findDefaultCredentials = Inl (Collab ''no default credentials''),
      osStat = (\<lambda>path. Some (Collab ''no such file'')),
      readFile = (\<lambda>path. Inl (Collab ''no such file'')),
      credentialsFromJSON = (\<lambda>data. Inl (Collab ''bad json'')),
      projectsGetAncestry = (\<lambda>projectId. Inl (Collab ''not found'')),
      foldersListPages = (\<lambda>parent. ([], None)),
      projectsListPages = (\<lambda>filter_string. ([], None)),
      projectsGetIamPolicy = (\<lambda>projectId. Inl (Collab ''not found'')),
      organizationsGetIamPolicy = (\<lambda>name. Inl (Collab ''not found'')),
      foldersGetIamPolicy = (\<lambda>folderId. Inl (Collab ''not found'')),
      osCreate = (\<lambda>path. None),
      fprintf = (\<lambda>accepted text. None),
      osRename = (\<lambda>old new. None),
      writerFlush = (\<lambda>accepted. None),
      fileClose = None\<rparr>"

definition env_org :: env where
  "env_org = env_base
     \<lparr>organizationsGetIamPolicy :=
        (\<lambda>name. if name = ''organizations/O''
           then Inr \<lparr>v1_Bindings = [\<lparr>v1_Condition = None,
                                      v1_Members = [''user:a@x.com'', ''group:g@x.com''],
                                      v1_Role = ''roles/viewer''\<rparr>], v1_Etag = ''e0''\<rparr>
           else Inl (Collab ''not found'')),
      foldersListPages :=
        (\<lambda>parent. if parent = ''organizations/O''
           then ([[\<lparr>Folder_Name = ''folders/1''\<rparr>, \<lparr>Folder_Name = ''folders/2''\<rparr>],
                  [\<lparr>Folder_Name = ''folders/3''\<rparr>]], None)
           else ([], None)),
      foldersGetIamPolicy := (\<lambda>folderId. Inr \<lparr>v2_Bindings = [], v2_Etag = ''e1''\<rparr>),
      projectsListPages :=
        (\<lambda>filter_string. if filter_string = ''parent.type:organization parent.id:O''
           then ([[\<lparr>v1_Name = ''P'', v1_ProjectId = ''p-1''\<rparr>]], None)
           else ([], None)),
      projectsGetIamPolicy :=
        (\<lambda>projectId. if projectId = ''p-1''
           then Inr \<lparr>v1_Bindings = [\<lparr>v1_Condition = None, v1_Members = [''user:b@x.com''],
                                      v1_Role = ''roles/editor''\<rparr>], v1_Etag = ''e2''\<rparr>
           else Inl (Collab ''not found''))\<rparr>"

text \<open>The same organization when the policy of the second folder cannot be read.\<close>

definition env_denied :: env where
  "env_denied = env_org
     \<lparr>foldersGetIamPolicy :=
        (\<lambda>folderId. if folderId = ''folders/2'' then Inl (Collab ''permission denied'')
                     else Inr \<lparr>v2_Bindings = [], v2_Etag = ''e1''\<rparr>)\<rparr>"

definition rm_O :: resourceManager where
  "rm_O = \<lparr>orgId = ''O'', roleMap = Map.empty\<rparr>"

text \<open>
  Default credentials that name the project \<open>p-1\<close>, whose ancestry ends with the
  organization \<open>O\<close>.
\<close>

definition env_cred :: env where
  "env_cred = env_org
     \<lparr>findDefaultCredentials := Inr \<lparr>ProjectID = ''p-1''\<rparr>,
      projectsGetAncestry :=
        (\<lambda>projectId. if projectId = ''p-1''
           then Inr (V1Ancestors
                  [\<lparr>v1_ResourceId = Some \<lparr>v1_Id = ''p-1'', v1_Type = ''project''\<rparr>\<rparr>,
                   \<lparr>v1_ResourceId = Some \<lparr>v1_Id = ''O'', v1_Type = ''organization''\<rparr>\<rparr>])
           else Inl (Collab ''not found''))\<rparr>"

text \<open>The same organization when the binding of the project names a role nobody knows.\<close>

definition env_unknown :: env where
  "env_unknown = env_org
     \<lparr>projectsGetIamPolicy :=
        (\<lambda>projectId. if projectId = ''p-1''
           then Inr \<lparr>v1_Bindings = [\<lparr>v1_Condition = None, v1_Members = [''user:b@x.com''],
                                      v1_Role = ''roles/none''\<rparr>], v1_Etag = ''e2''\<rparr>
           else Inl (Collab ''not found''))\<rparr>"

section \<open>Role resolution: lemmas\<close>

lemma tryUri_neq: "tryUri row \<noteq> Role row"
proof
  assume "tryUri row = Role row"
  then have "length (tryUri row) = length (Role row)" by simp
  then show False by (simp add: tryUri_def)
qed

lemma GetRole_alt:
  "GetRole e r w row =
     (if Type row = ''project'' \<or> Type row = ''organization'' then
        (case getRoleByUri e r w (tryUri row) of
           (Inr role, r', w') \<Rightarrow> (Inr role, r', w')
         | (Inl err, r', w') \<Rightarrow> getRoleByUri e r' w' (Role row))
      else getRoleByUri e r w (Role row))"
  by (simp add: GetRole_def Let_def)

lemma GetRole_isl:
  "isl (fst (GetRole e r w row)) \<longleftrightarrow>
     ((Type row = ''project'' \<or> Type row = ''organization'') \<longrightarrow> unresolvable e r (tryUri row))
     \<and> unresolvable e r (Role row)"
  by (auto simp: GetRole_alt getRoleByUri_def unresolvable_def split: option.splits sum.splits)

lemma GetRole_success:
  assumes "GetRole e r w row = (Inr role, r1, w1)"
  shows "roleMap r1 = (roleMap r)(usedUri e r row \<mapsto> role) \<and> orgId r1 = orgId r
     \<and> \<not> unresolvable e r (usedUri e r row)"
  using assms tryUri_neq [of row]
  by (auto simp: GetRole_alt getRoleByUri_def unresolvable_def usedUri_def
      split: option.splits sum.splits if_splits)

lemma GetRole_failure:
  assumes "GetRole e r w row = (Inl err, r', w')"
  shows "r' = r"
  using assms
  by (auto simp: GetRole_alt getRoleByUri_def split: option.splits sum.splits if_splits)

text \<open>
  A resolution that succeeded succeeds again, with the same role and without a change of
  the cache, in every later state whose cache holds what the first resolution left and,
  beyond that, only roles the service knows.
\<close>

lemma GetRole_again:
  assumes first: "GetRole e r w row = (Inr role, r1, w1)"
    and le: "roleMap r1 \<subseteq>\<^sub>m roleMap r2"
    and grown: "\<forall>uri. roleMap r2 uri \<noteq> None \<longrightarrow> roleMap r1 uri \<noteq> None \<or> \<not> isl (rolesGet e uri)"
  shows "GetRole e r2 w2 row = (Inr role, r2, w2)
    \<or> GetRole e r2 w2 row = (Inr role, r2, called (RolesGet (tryUri row)) w2)"
proof -
  from GetRole_success [OF first]
  have m1: "roleMap r1 (usedUri e r row) = Some role" by simp
  with le have m2: "roleMap r2 (usedUri e r row) = Some role"
    by (auto simp: map_le_def dom_def)
  show ?thesis
  proof (cases "usedUri e r row = tryUri row")
    case True
    then have kind: "Type row = ''project'' \<or> Type row = ''organization''"
      using tryUri_neq [of row] by (auto simp: usedUri_def split: if_splits)
    with m2 True show ?thesis
      by (simp add: GetRole_alt getRoleByUri_def)
  next
    case False
    then have u: "usedUri e r row = Role row" by (auto simp: usedUri_def split: if_splits)
    show ?thesis
    proof (cases "Type row = ''project'' \<or> Type row = ''organization''")
      case kind: True
      with False have un: "unresolvable e r (tryUri row)"
        by (auto simp: usedUri_def split: if_splits)
      from GetRole_success [OF first] u
      have "roleMap r1 (tryUri row) = None"
        using un tryUri_neq [of row] by (auto simp: unresolvable_def)
      with grown un have n2: "roleMap r2 (tryUri row) = None"
        by (auto simp: unresolvable_def)
      from un obtain err where "rolesGet e (tryUri row) = Inl err"
        by (cases "rolesGet e (tryUri row)") (auto simp: unresolvable_def)
      with n2 m2 u kind False show ?thesis
        by (simp add: GetRole_alt getRoleByUri_def)
    next
      case nokind: False
      with m2 u show ?thesis
        by (simp add: GetRole_alt getRoleByUri_def)
    qed
  qed
qed

section \<open>Role resolution: the scoped URI\<close>

text \<open>
  Claim C1, as amended. For a row of type \<open>project\<close> or \<open>organization\<close> the URI tried
  first is \<open>{type}s/{resource}/{role}\<close>: the role reference follows the resource id
  directly, and no \<open>roles/\<close> segment is put between them. When the cache has no entry
  for that URI, the first call to the role service is for it; when the service knows it,
  the resolution returns that role, stores it under that URI and makes no other call;
  when the cache has an entry for it, that entry is returned without any call. So a
  binding of type \<open>project\<close>, resource \<open>P\<close> and role reference \<open>roles/myrole\<close> resolves by
  the scoped URI \<open>projects/P/roles/myrole\<close> without a lookup of the bare reference.
\<close>

theorem scoped_uri_first:
  assumes "Type row = ''project'' \<or> Type row = ''organization''"
  shows "tryUri row = Type row @ ''s/'' @ Resource row @ ''/'' @ Role row
    \<and> (roleMap r (tryUri row) = None \<longrightarrow>
          (\<exists>rest. calls (snd (snd (GetRole e r w row))) = calls w @ RolesGet (tryUri row) # rest))
    \<and> (roleMap r (tryUri row) = None \<and> rolesGet e (tryUri row) = Inr role \<longrightarrow>
          GetRole e r w row =
            (Inr role, r\<lparr>roleMap := (roleMap r)(tryUri row \<mapsto> role)\<rparr>, called (RolesGet (tryUri row)) w))
    \<and> (roleMap r (tryUri row) = Some role \<longrightarrow> GetRole e r w row = (Inr role, r, w))"
  using assms
  apply (intro conjI impI)
  subgoal by (simp add: tryUri_def)
  subgoal by (auto simp: GetRole_alt getRoleByUri_def called_def split: option.splits sum.splits)
  subgoal by (auto simp: GetRole_alt getRoleByUri_def)
  subgoal by (auto simp: GetRole_alt getRoleByUri_def)
  done

text \<open>
  The role reference \<open>roles/myrole\<close> on project \<open>P\<close> is resolved by the single call for
  \<open>projects/P/roles/myrole\<close>.
\<close>

theorem scoped_uri_first_witness:
  "GetRole env_base rm_O world0
      \<lparr>Resource = ''P'', Type = ''project'', Role = ''roles/myrole'', Member = ''user:a@x.com''\<rparr>
   = (Inr myrole, rm_O\<lparr>roleMap := [''projects/P/roles/myrole'' \<mapsto> myrole]\<rparr>,
      world0\<lparr>calls := [RolesGet ''projects/P/roles/myrole'']\<rparr>)"
  using scoped_uri_first [where row = "\<lparr>Resource = ''P'', Type = ''project'', Role = ''roles/myrole'',
        Member = ''user:a@x.com''\<rparr>" and r = rm_O and e = env_base and role = myrole and w = world0]
  by (simp add: tryUri_def rolesOnly_def env_base_def world0_def called_def rm_O_def)

text \<open>
  The claim as it is written fails: with the role at \<open>projects/P/roles/myrole\<close> and the
  role reference \<open>myrole\<close>, the URI tried first is \<open>projects/P/myrole\<close>, the bare reference
  is tried next, and the resolution fails.
\<close>

theorem myrole_counterexample:
  "GetRole env_base rm_O world0
      \<lparr>Resource = ''P'', Type = ''project'', Role = ''myrole'', Member = ''user:a@x.com''\<rparr>
   = (Inl (UriError ''myrole'' (Collab ''not found'')), rm_O,
      world0\<lparr>calls := [RolesGet ''projects/P/myrole'', RolesGet ''myrole'']\<rparr>)
   \<and> rolesGet env_base ''projects/P/roles/myrole'' = Inr myrole
   \<and> tryUri \<lparr>Resource = ''P'', Type = ''project'', Role = ''myrole'', Member = ''user:a@x.com''\<rparr>
       \<noteq> ''projects/P/roles/myrole''"
  by (simp add: GetRole_def getRoleByUri_def tryUri_def rolesOnly_def env_base_def world0_def
      called_def rm_O_def)

section \<open>Role resolution: order of the lookups\<close>

text \<open>
  Claim C5. For a row of type \<open>project\<close> or \<open>organization\<close> the scoped URI is looked up
  first: when that lookup succeeds it is the whole resolution, and when it fails the
  resolution goes on, after the call for the scoped URI, with the lookup of the role
  reference as it stands. For every other type, \<open>folder\<close> among them, the resolution is
  the lookup of the role reference alone. The resolution fails exactly when every lookup
  it attempts fails. The calls it makes to the role service are, in this order, the one
  for the scoped URI (if it is attempted and not cached) and the one for the role
  reference (if it is attempted and not cached).
\<close>

theorem GetRole_resolution_order:
  "((Type row = ''project'' \<or> Type row = ''organization'') \<and> \<not> unresolvable e r (tryUri row) \<longrightarrow>
      GetRole e r w row = getRoleByUri e r w (tryUri row))
   \<and> ((Type row = ''project'' \<or> Type row = ''organization'') \<and> unresolvable e r (tryUri row) \<longrightarrow>
      GetRole e r w row = getRoleByUri e r (called (RolesGet (tryUri row)) w) (Role row))
   \<and> (\<not> (Type row = ''project'' \<or> Type row = ''organization'') \<longrightarrow>
      GetRole e r w row = getRoleByUri e r w (Role row))
   \<and> (isl (fst (GetRole e r w row)) \<longleftrightarrow>
        ((Type row = ''project'' \<or> Type row = ''organization'') \<longrightarrow> unresolvable e r (tryUri row))
        \<and> unresolvable e r (Role row))
   \<and> calls (snd (snd (GetRole e r w row))) =
        calls w
        @ (if (Type row = ''project'' \<or> Type row = ''organization'') \<and> roleMap r (tryUri row) = None
           then [RolesGet (tryUri row)] else [])
        @ (if ((Type row = ''project'' \<or> Type row = ''organization'') \<longrightarrow> unresolvable e r (tryUri row))
              \<and> roleMap r (Role row) = None
           then [RolesGet (Role row)] else [])"
  apply (intro conjI impI)
  subgoal by (auto simp: GetRole_alt getRoleByUri_def unresolvable_def split: option.splits sum.splits)
  subgoal by (auto simp: GetRole_alt getRoleByUri_def unresolvable_def split: option.splits sum.splits)
  subgoal by (simp add: GetRole_alt)
  subgoal by (rule GetRole_isl)
  subgoal by (auto simp: GetRole_alt getRoleByUri_def unresolvable_def called_def split: option.splits sum.splits)
  done

text \<open>
  A predefined role on a project: the scoped lookup fails, the lookup of the reference
  answers. The same reference on a folder makes the second call only.
\<close>

theorem GetRole_resolution_order_witness:
  "unresolvable env_base rm_O ''projects/P/roles/viewer''
   \<and> GetRole env_base rm_O world0
        \<lparr>Resource = ''P'', Type = ''project'', Role = ''roles/viewer'', Member = ''user:a@x.com''\<rparr>
      = (Inr viewer, rm_O\<lparr>roleMap := [''roles/viewer'' \<mapsto> viewer]\<rparr>,
         world0\<lparr>calls := [RolesGet ''projects/P/roles/viewer'', RolesGet ''roles/viewer'']\<rparr>)
   \<and> GetRole env_base rm_O world0
        \<lparr>Resource = ''folders/1'', Type = ''folder'', Role = ''roles/viewer'', Member = ''user:a@x.com''\<rparr>
      = (Inr viewer, rm_O\<lparr>roleMap := [''roles/viewer'' \<mapsto> viewer]\<rparr>,
         world0\<lparr>calls := [RolesGet ''roles/viewer'']\<rparr>)"
  using GetRole_resolution_order [where row = "\<lparr>Resource = ''P'', Type = ''project'',
        Role = ''roles/viewer'', Member = ''user:a@x.com''\<rparr>" and r = rm_O and e = env_base and w = world0]
    GetRole_resolution_order [where row = "\<lparr>Resource = ''folders/1'', Type = ''folder'',
        Role = ''roles/viewer'', Member = ''user:a@x.com''\<rparr>" and r = rm_O and e = env_base and w = world0]
  by (simp add: tryUri_def rolesOnly_def env_base_def world0_def called_def rm_O_def
      unresolvable_def getRoleByUri_def)

section \<open>Role resolution: memoization\<close>

text \<open>
  Claim C6, as amended. When a resolution succeeds, resolving the same row again, in
  any later state of the run (the cache holds what the first resolution left and, beyond
  that, only roles the service knows), returns the same permissions, leaves the cache as
  it is and makes at most one call to the role service, which is the call for the scoped
  URI. The first resolution stores the role under the URI whose lookup answered, the
  scoped URI or the role reference, and changes no other key. A resolution that fails,
  from any state, leaves the resource manager as it was.
\<close>

theorem resolution_memoized:
  assumes first: "GetRolePermissions e r w row = (Inr perms, r1, w1)"
    and le: "roleMap r1 \<subseteq>\<^sub>m roleMap r2"
    and grown: "\<forall>uri. roleMap r2 uri \<noteq> None \<longrightarrow> roleMap r1 uri \<noteq> None \<or> \<not> isl (rolesGet e uri)"
  shows "(\<exists>w2'. GetRolePermissions e r2 w2 row = (Inr perms, r2, w2')
            \<and> (calls w2' = calls w2 \<or> calls w2' = calls w2 @ [RolesGet (tryUri row)])
            \<and> length (calls w2') \<le> length (calls w2) + 1)
    \<and> (\<exists>role. IncludedPermissions role = perms
            \<and> roleMap r1 = (roleMap r)(usedUri e r row \<mapsto> role))
    \<and> (\<forall>ra wa err ra' wa'. GetRolePermissions e ra wa row = (Inl err, ra', wa') \<longrightarrow> ra' = ra)"
proof -
  from first obtain role where g: "GetRole e r w row = (Inr role, r1, w1)"
    and p: "IncludedPermissions role = perms"
    by (auto simp: GetRolePermissions_def split: prod.splits sum.splits)
  from GetRole_again [OF g le grown, of w2]
  have "\<exists>w2'. GetRole e r2 w2 row = (Inr role, r2, w2')
           \<and> (calls w2' = calls w2 \<or> calls w2' = calls w2 @ [RolesGet (tryUri row)])"
    by (auto simp: called_def)
  then obtain w2' where g2: "GetRole e r2 w2 row = (Inr role, r2, w2')"
    and c: "calls w2' = calls w2 \<or> calls w2' = calls w2 @ [RolesGet (tryUri row)]"
    by blast
  from g2 p have "GetRolePermissions e r2 w2 row = (Inr perms, r2, w2')"
    by (simp add: GetRolePermissions_def)
  moreover from c have "length (calls w2') \<le> length (calls w2) + 1" by auto
  moreover from GetRole_success [OF g] p
  have "\<exists>role. IncludedPermissions role = perms \<and> roleMap r1 = (roleMap r)(usedUri e r row \<mapsto> role)"
    by blast
  moreover have "\<forall>ra wa err ra' wa'. GetRolePermissions e ra wa row = (Inl err, ra', wa') \<longrightarrow> ra' = ra"
    by (auto simp: GetRolePermissions_def split: prod.splits sum.splits dest: GetRole_failure)
  ultimately show ?thesis using c by blast
qed

text \<open>
  The role \<open>roles/viewer\<close> on project \<open>P\<close>, resolved twice in a row: two calls the first
  time, one call the second time, the same permissions.
\<close>

theorem resolution_memoized_witness:
  "GetRolePermissions env_base rm_O world0
      \<lparr>Resource = ''P'', Type = ''project'', Role = ''roles/viewer'', Member = ''user:a@x.com''\<rparr>
     = (Inr [''permA'', ''permB''], rm_O\<lparr>roleMap := [''roles/viewer'' \<mapsto> viewer]\<rparr>,
        world0\<lparr>calls := [RolesGet ''projects/P/roles/viewer'', RolesGet ''roles/viewer'']\<rparr>)
   \<and> (\<exists>w2'. GetRolePermissions env_base (rm_O\<lparr>roleMap := [''roles/viewer'' \<mapsto> viewer]\<rparr>)
          (world0\<lparr>calls := [RolesGet ''projects/P/roles/viewer'', RolesGet ''roles/viewer'']\<rparr>)
          \<lparr>Resource = ''P'', Type = ''project'', Role = ''roles/viewer'', Member = ''user:a@x.com''\<rparr>
        = (Inr [''permA'', ''permB''], rm_O\<lparr>roleMap := [''roles/viewer'' \<mapsto> viewer]\<rparr>, w2')
        \<and> length (calls w2') \<le> 2 + 1)"
proof -
  let ?row = "\<lparr>Resource = ''P'', Type = ''project'', Role = ''roles/viewer'', Member = ''user:a@x.com''\<rparr>"
  let ?r1 = "rm_O\<lparr>roleMap := [''roles/viewer'' \<mapsto> viewer]\<rparr>"
  let ?w1 = "world0\<lparr>calls := [RolesGet ''projects/P/roles/viewer'', RolesGet ''roles/viewer'']\<rparr>"
  have first: "GetRolePermissions env_base rm_O world0 ?row = (Inr [''permA'', ''permB''], ?r1, ?w1)"
    by (simp add: GetRolePermissions_def GetRole_def getRoleByUri_def tryUri_def rolesOnly_def
        env_base_def world0_def called_def rm_O_def viewer_def)
  have le: "roleMap ?r1 \<subseteq>\<^sub>m roleMap ?r1" by simp
  have grown: "\<forall>uri. roleMap ?r1 uri \<noteq> None \<longrightarrow> roleMap ?r1 uri \<noteq> None \<or> \<not> isl (rolesGet env_base uri)"
    by simp
  from resolution_memoized [OF first le grown, of ?w1] first show ?thesis
    by auto
qed

text \<open>
  The claim as it is written fails for a resolution that fails: nothing is stored, and
  the second resolution of the unknown reference \<open>roles/none\<close> on project \<open>P\<close> repeats
  both calls.
\<close>

theorem resolution_memoized_counterexample:
  "GetRolePermissions env_base rm_O world0
      \<lparr>Resource = ''P'', Type = ''project'', Role = ''roles/none'', Member = ''user:a@x.com''\<rparr>
     = (Inl (RowError \<lparr>Resource = ''P'', Type = ''project'', Role = ''roles/none'',
                       Member = ''user:a@x.com''\<rparr>
               (UriError ''roles/none'' (Collab ''not found''))),
        rm_O, world0\<lparr>calls := [RolesGet ''projects/P/roles/none'', RolesGet ''roles/none'']\<rparr>)
   \<and> calls (snd (snd (GetRolePermissions env_base rm_O
          (world0\<lparr>calls := [RolesGet ''projects/P/roles/none'', RolesGet ''roles/none'']\<rparr>)
          \<lparr>Resource = ''P'', Type = ''project'', Role = ''roles/none'', Member = ''user:a@x.com''\<rparr>)))
     = [RolesGet ''projects/P/roles/none'', RolesGet ''roles/none'',
        RolesGet ''projects/P/roles/none'', RolesGet ''roles/none'']"
  by (simp add: GetRolePermissions_def GetRole_def getRoleByUri_def tryUri_def rolesOnly_def
      env_base_def world0_def called_def rm_O_def Let_def)

section \<open>Properties of the normalisation\<close>

lemma Binding_convertV1_zero: "Binding_convertV1 zero_Binding b = Inr (normalV1 b)"
  by (simp add: Binding_convertV1_def zero_Binding_def normalV1_def)

lemma Binding_convertV2_zero: "Binding_convertV2 zero_Binding b = Inr (normalV2 b)"
  by (simp add: Binding_convertV2_def zero_Binding_def normalV2_def)

lemma convertEachV1_eq: "convertEachV1 bs = Inr (map normalV1 bs)"
  by (induction bs) (simp_all add: Binding_convertV1_zero)

lemma convertEachV2_eq: "convertEachV2 bs = Inr (map normalV2 bs)"
  by (induction bs) (simp_all add: Binding_convertV2_zero)

lemma Policy_convertV1_zero:
  "Policy_convertV1 zero_Policy p = Inr \<lparr>Bindings = map normalV1 (v1_Bindings p), Etag = v1_Etag p\<rparr>"
  by (simp add: Policy_convertV1_def Policy_convertBindingsV1_def convertEachV1_eq zero_Policy_def)

lemma Policy_convertV2_zero:
  "Policy_convertV2 zero_Policy p = Inr \<lparr>Bindings = map normalV2 (v2_Bindings p), Etag = v2_Etag p\<rparr>"
  by (simp add: Policy_convertV2_def Policy_convertBindingsV2_def convertEachV2_eq zero_Policy_def)

text \<open>
  Claim C2 says that the condition of a source binding is copied into the canonical
  binding when it is not null. The code does not do that: both conversions test the
  condition of the receiver, which is the fresh \<^verbatim>\<open>&Binding{}\<close>, so the branch that
  copies never runs. A policy of either schema whose only binding has a condition is
  normalised to a binding without condition.
\<close>

theorem condition_dropped:
  "Policy_convertV1 zero_Policy
     \<lparr>v1_Bindings = [\<lparr>v1_Condition = Some \<lparr>v1_Description = ''d'', v1_Expression = ''x'',
                                             v1_Location = ''l'', v1_Title = ''t''\<rparr>,
                      v1_Members = [''user:a@x.com''], v1_Role = ''roles/viewer''\<rparr>],
      v1_Etag = ''e1''\<rparr>
   = Inr \<lparr>Bindings = [\<lparr>Condition = None, Members = [''user:a@x.com''],
                        Binding_Role = ''roles/viewer''\<rparr>], Etag = ''e1''\<rparr>
   \<and> Policy_convertV2 zero_Policy
     \<lparr>v2_Bindings = [\<lparr>v2_Condition = Some \<lparr>v2_Description = ''d'', v2_Expression = ''x'',
                                             v2_Location = ''l'', v2_Title = ''t''\<rparr>,
                      v2_Members = [''user:a@x.com''], v2_Role = ''roles/viewer''\<rparr>],
      v2_Etag = ''e1''\<rparr>
   = Inr \<lparr>Bindings = [\<lparr>Condition = None, Members = [''user:a@x.com''],
                        Binding_Role = ''roles/viewer''\<rparr>], Etag = ''e1''\<rparr>"
  by (simp add: Policy_convertV1_def Policy_convertBindingsV1_def Binding_convertV1_def
      Policy_convertV2_def Policy_convertBindingsV2_def Binding_convertV2_def
      zero_Policy_def zero_Binding_def)

section \<open>Properties of the flattening\<close>

lemma addMembers_eq:
  "addMembers ms rows resource resType role = rows @ map (rowOf resource resType role) ms"
  by (induction ms arbitrary: rows) (simp_all add: rowOf_def)

lemma addBindings_eq:
  "addBindings bs rows resource resType = rows @ flatten bs resource resType"
  by (induction bs arbitrary: rows) (simp_all add: flatten_def addMembers_eq)

lemma length_flatten:
  "length (flatten bs resource resType) = (\<Sum>b\<leftarrow>bs. length (Members b))"
  by (induction bs) (simp_all add: flatten_def)

lemma Type_flatten: "x \<in> set (flatten bs resource resType) \<Longrightarrow> Type x = resType"
  by (auto simp: flatten_def rowOf_def)

text \<open>
  Claim C3. \<^verbatim>\<open>addBindings\<close> appends to the rows it is given one row for every binding
  and every member of it, in the order of the bindings and, within a binding, of its
  members; the number of rows added is the sum of the member counts of the bindings; and
  nothing is removed: a member under the same role in two bindings gives two equal rows.
\<close>

theorem addBindings_fan_out:
  "addBindings bs rows resource resType
     = rows @ concat (map (\<lambda>b. map (\<lambda>m. \<lparr>Resource = resource, Type = resType,
                                              Role = Binding_Role b, Member = m\<rparr>) (Members b)) bs)
   \<and> length (addBindings bs rows resource resType) = length rows + (\<Sum>b\<leftarrow>bs. length (Members b))
   \<and> addBindings [\<lparr>Condition = c1, Members = [m], Binding_Role = role\<rparr>,
                   \<lparr>Condition = c2, Members = [m], Binding_Role = role\<rparr>] [] resource resType
       = [\<lparr>Resource = resource, Type = resType, Role = role, Member = m\<rparr>,
          \<lparr>Resource = resource, Type = resType, Role = role, Member = m\<rparr>]"
proof (intro conjI)
  show "addBindings bs rows resource resType
     = rows @ concat (map (\<lambda>b. map (\<lambda>m. \<lparr>Resource = resource, Type = resType,
                                              Role = Binding_Role b, Member = m\<rparr>) (Members b)) bs)"
    using addBindings_eq [of bs rows resource resType]
    by (simp add: flatten_def rowOf_def [abs_def])
  show "length (addBindings bs rows resource resType) = length rows + (\<Sum>b\<leftarrow>bs. length (Members b))"
    by (simp add: addBindings_eq length_flatten)
  show "addBindings [\<lparr>Condition = c1, Members = [m], Binding_Role = role\<rparr>,
                   \<lparr>Condition = c2, Members = [m], Binding_Role = role\<rparr>] [] resource resType
       = [\<lparr>Resource = resource, Type = resType, Role = role, Member = m\<rparr>,
          \<lparr>Resource = resource, Type = resType, Role = role, Member = m\<rparr>]"
    by simp
qed

section \<open>The ancestry of a project\<close>

lemma GetAncestryForProject_OtherShape:
  "projectsGetAncestry e projectId = Inr OtherShape \<Longrightarrow>
   GetAncestryForProject e w projectId = Inr (([], None), called (ProjectsGetAncestry projectId) w)"
  by (simp add: GetAncestryForProject_def convertAncestors_def)

text \<open>
  Claim C10. The converter returns the empty sequence, and no error, for an ancestor
  list of a shape it does not recognise, so the ancestry of the project is then empty
  with no error; and whenever the ancestry of a project is empty with no error, the
  derivation of the organization id reads the ancestry at index \<open>length - 1\<close>, out of
  range, and panics instead of returning an error.
\<close>

theorem empty_ancestry_panics:
  "convertAncestors OtherShape = Inr []
   \<and> (projectsGetAncestry e projectId = Inr OtherShape \<longrightarrow>
        GetAncestryForProject e w projectId = Inr (([], None), called (ProjectsGetAncestry projectId) w))
   \<and> (GetAncestryForProject e w projectId = Inr (([], None), w') \<longrightarrow>
        GetOrgIdFromProjectId e r w projectId = Inl IndexOutOfRange)"
  by (simp add: GetAncestryForProject_OtherShape convertAncestors_def GetOrgIdFromProjectId_def)

theorem empty_ancestry_panics_witness:
  "projectsGetAncestry (env_base\<lparr>projectsGetAncestry := (\<lambda>projectId. Inr OtherShape)\<rparr>) ''p-1''
     = Inr OtherShape
   \<and> GetOrgIdFromProjectId (env_base\<lparr>projectsGetAncestry := (\<lambda>projectId. Inr OtherShape)\<rparr>)
       rm_O world0 ''p-1'' = Inl IndexOutOfRange"
proof -
  let ?e = "env_base\<lparr>projectsGetAncestry := (\<lambda>projectId. Inr OtherShape)\<rparr>"
  have shape: "projectsGetAncestry ?e ''p-1'' = Inr OtherShape" by simp
  from empty_ancestry_panics [of ?e "''p-1''" world0] shape
  have "GetAncestryForProject ?e world0 ''p-1''
      = Inr (([], None), called (ProjectsGetAncestry ''p-1'') world0)"
    by blast
  with empty_ancestry_panics [of ?e "''p-1''" world0 "called (ProjectsGetAncestry ''p-1'') world0" rm_O]
  have "GetOrgIdFromProjectId ?e rm_O world0 ''p-1'' = Inl IndexOutOfRange"
    by blast
  with shape show ?thesis by blast
qed

section \<open>Properties of the aggregation\<close>

text \<open>
  The policy getters never panic: the conversions are applied to fresh values.
\<close>

lemma GetIamPolicyForFolder_eq:
  "GetIamPolicyForFolder e w folderId =
     Inr ((case foldersGetIamPolicy e folderId of
             Inl err \<Rightarrow> (zero_Policy, Some err)
           | Inr p \<Rightarrow> (\<lparr>Bindings = map normalV2 (v2_Bindings p), Etag = v2_Etag p\<rparr>, None)),
          called (FoldersGetIamPolicy folderId) w)"
  by (simp add: GetIamPolicyForFolder_def Policy_convertV2_zero Let_def split: sum.splits)

lemma GetIamPolicyForProject_eq:
  "GetIamPolicyForProject e w projectId =
     Inr ((case projectsGetIamPolicy e projectId of
             Inl err \<Rightarrow> (zero_Policy, Some err)
           | Inr p \<Rightarrow> (\<lparr>Bindings = map normalV1 (v1_Bindings p), Etag = v1_Etag p\<rparr>, None)),
          called (ProjectsGetIamPolicy projectId) w)"
  by (simp add: GetIamPolicyForProject_def Policy_convertV1_zero Let_def split: sum.splits)

lemma GetIamPolicyForOrganization_eq:
  "GetIamPolicyForOrganization e r w =
     Inr ((case organizationsGetIamPolicy e (''organizations/'' @ orgId r) of
             Inl err \<Rightarrow> (zero_Policy, Some err)
           | Inr p \<Rightarrow> (\<lparr>Bindings = map normalV1 (v1_Bindings p), Etag = v1_Etag p\<rparr>, None)),
          called (OrganizationsGetIamPolicy (''organizations/'' @ orgId r)) w)"
  by (simp add: GetIamPolicyForOrganization_def Policy_convertV1_zero Let_def split: sum.splits)

lemma folderRows_cases:
  "(\<exists>rows' err w'. folderRows e fs rows w = Inr ((rows', Some err), w')
       \<and> (\<exists>f \<in> set fs. foldersGetIamPolicy e (Folder_Name f) = Inl err))
   \<or> (\<exists>new w'. folderRows e fs rows w = Inr ((rows @ new, None), w')
       \<and> (\<forall>x \<in> set new. Type x = ''folder'')
       \<and> (\<forall>f \<in> set fs. \<not> isl (foldersGetIamPolicy e (Folder_Name f))))"
proof (induction fs arbitrary: rows w)
  case Nil
  then show ?case by simp
next
  case (Cons f fs)
  show ?case
  proof (cases "foldersGetIamPolicy e (Folder_Name f)")
    case (Inl err)
    then show ?thesis by (simp add: GetIamPolicyForFolder_eq)
  next
    case (Inr p)
    let ?rows = "rows @ flatten (map normalV2 (v2_Bindings p)) (Folder_Name f) ''folder''"
    let ?w = "called (FoldersGetIamPolicy (Folder_Name f)) w"
    have step: "folderRows e (f # fs) rows w = folderRows e fs ?rows ?w"
      using Inr by (simp add: GetIamPolicyForFolder_eq addBindings_eq)
    from Cons.IH [of ?rows ?w] show ?thesis
    proof
      assume "\<exists>rows' err w'. folderRows e fs ?rows ?w = Inr ((rows', Some err), w')
         \<and> (\<exists>f \<in> set fs. foldersGetIamPolicy e (Folder_Name f) = Inl err)"
      then show ?thesis unfolding step by auto
    next
      assume "\<exists>new w'. folderRows e fs ?rows ?w = Inr ((?rows @ new, None), w')
         \<and> (\<forall>x \<in> set new. Type x = ''folder'')
         \<and> (\<forall>f \<in> set fs. \<not> isl (foldersGetIamPolicy e (Folder_Name f)))"
      then obtain new w' where
        eq: "folderRows e fs ?rows ?w = Inr ((?rows @ new, None), w')"
        and ty: "\<forall>x \<in> set new. Type x = ''folder''"
        and ok: "\<forall>f \<in> set fs. \<not> isl (foldersGetIamPolicy e (Folder_Name f))"
        by blast
      have "folderRows e (f # fs) rows w =
          Inr ((rows @ (flatten (map normalV2 (v2_Bindings p)) (Folder_Name f) ''folder'' @ new), None), w')"
        unfolding step eq by simp
      moreover have "\<forall>x \<in> set (flatten (map normalV2 (v2_Bindings p)) (Folder_Name f) ''folder'' @ new).
          Type x = ''folder''"
        using ty by (auto dest: Type_flatten)
      moreover have "\<forall>g \<in> set (f # fs). \<not> isl (foldersGetIamPolicy e (Folder_Name g))"
        using ok Inr by simp
      ultimately show ?thesis by blast
    qed
  qed
qed

lemma projectRows_cases:
  "(\<exists>rows' err w'. projectRows e ps rows w = Inr ((rows', Some err), w')
       \<and> (\<exists>p \<in> set ps. projectsGetIamPolicy e (ProjectId p) = Inl err))
   \<or> (\<exists>new w'. projectRows e ps rows w = Inr ((rows @ new, None), w')
       \<and> (\<forall>x \<in> set new. Type x = ''project'')
       \<and> (\<forall>p \<in> set ps. \<not> isl (projectsGetIamPolicy e (ProjectId p))))"
proof (induction ps arbitrary: rows w)
  case Nil
  then show ?case by simp
next
  case (Cons p ps)
  show ?case
  proof (cases "projectsGetIamPolicy e (ProjectId p)")
    case (Inl err)
    then show ?thesis by (simp add: GetIamPolicyForProject_eq)
  next
    case (Inr pol)
    let ?rows = "rows @ flatten (map normalV1 (v1_Bindings pol)) (Project_Name p) ''project''"
    let ?w = "called (ProjectsGetIamPolicy (ProjectId p)) w"
    have step: "projectRows e (p # ps) rows w = projectRows e ps ?rows ?w"
      using Inr by (simp add: GetIamPolicyForProject_eq addBindings_eq)
    from Cons.IH [of ?rows ?w] show ?thesis
    proof
      assume "\<exists>rows' err w'. projectRows e ps ?rows ?w = Inr ((rows', Some err), w')
         \<and> (\<exists>p \<in> set ps. projectsGetIamPolicy e (ProjectId p) = Inl err)"
      then show ?thesis unfolding step by auto
    next
      assume "\<exists>new w'. projectRows e ps ?rows ?w = Inr ((?rows @ new, None), w')
         \<and> (\<forall>x \<in> set new. Type x = ''project'')
         \<and> (\<forall>p \<in> set ps. \<not> isl (projectsGetIamPolicy e (ProjectId p)))"
      then obtain new w' where
        eq: "projectRows e ps ?rows ?w = Inr ((?rows @ new, None), w')"
        and ty: "\<forall>x \<in> set new. Type x = ''project''"
        and ok: "\<forall>p \<in> set ps. \<not> isl (projectsGetIamPolicy e (ProjectId p))"
        by blast
      have "projectRows e (p # ps) rows w =
          Inr ((rows @ (flatten (map normalV1 (v1_Bindings pol)) (Project_Name p) ''project'' @ new), None), w')"
        unfolding step eq by simp
      moreover have "\<forall>x \<in> set (flatten (map normalV1 (v1_Bindings pol)) (Project_Name p) ''project'' @ new).
          Type x = ''project''"
        using ty by (auto dest: Type_flatten)
      moreover have "\<forall>q \<in> set (p # ps). \<not> isl (projectsGetIamPolicy e (ProjectId q))"
        using ok Inr by simp
      ultimately show ?thesis by blast
    qed
  qed
qed

text \<open>
  Each tier either fails with the error of one of its calls, or succeeds with rows of its
  own type and then none of its calls fails.
\<close>

lemma GetOrgPolicyRows_cases:
  "(\<exists>rows' err w'. GetOrgPolicyRows e r w = Inr ((rows', Some err), w') \<and> orgFails e r err)
   \<or> (\<exists>new w'. GetOrgPolicyRows e r w = Inr ((new, None), w')
       \<and> (\<forall>x \<in> set new. Type x = ''organization'') \<and> (\<forall>err. \<not> orgFails e r err))"
  by (cases "organizationsGetIamPolicy e (''organizations/'' @ orgId r)")
     (auto simp: GetOrgPolicyRows_def GetIamPolicyForOrganization_eq orgFails_def addBindings_eq
           dest: Type_flatten)

lemma GetFolderPolicyRows_cases:
  "(\<exists>rows' err w'. GetFolderPolicyRows e r w = Inr ((rows', Some err), w') \<and> folderFails e r err)
   \<or> (\<exists>new w'. GetFolderPolicyRows e r w = Inr ((new, None), w')
       \<and> (\<forall>x \<in> set new. Type x = ''folder'') \<and> (\<forall>err. \<not> folderFails e r err))"
proof (cases "foldersListPages e (''organizations/'' @ orgId r)")
  case (Pair pages res)
  show ?thesis
  proof (cases res)
    case (Some err)
    with Pair show ?thesis
      by (simp add: GetFolderPolicyRows_def FoldersList_def folderFails_def)
  next
    case None
    with Pair have l: "listedFolders e r = concat pages" by (simp add: listedFolders_def)
    have g: "GetFolderPolicyRows e r w =
        folderRows e (concat pages) [] (called (FoldersListPages (''organizations/'' @ orgId r)) w)"
      using Pair None by (simp add: GetFolderPolicyRows_def FoldersList_def)
    from folderRows_cases [of e "concat pages" "[]" "called (FoldersListPages (''organizations/'' @ orgId r)) w"]
    show ?thesis
      unfolding g using Pair None l
      by (auto simp: folderFails_def isl_def)
  qed
qed

lemma GetProjectPolicyRows_cases:
  "(\<exists>rows' err w'. GetProjectPolicyRows e r w = Inr ((rows', Some err), w') \<and> projectFails e r err)
   \<or> (\<exists>new w'. GetProjectPolicyRows e r w = Inr ((new, None), w')
       \<and> (\<forall>x \<in> set new. Type x = ''project'') \<and> (\<forall>err. \<not> projectFails e r err))"
proof (cases "projectsListPages e (''parent.type:organization parent.id:'' @ orgId r)")
  case (Pair pages res)
  show ?thesis
  proof (cases res)
    case (Some err)
    with Pair show ?thesis
      by (simp add: GetProjectPolicyRows_def ProjectsList_def ProjectsListByFilter_def projectFails_def)
  next
    case None
    let ?conv = "\<lambda>p. \<lparr>Project_Name = v1_Name p, ProjectId = v1_ProjectId p\<rparr>"
    let ?w = "called (ProjectsListPages (''parent.type:organization parent.id:'' @ orgId r)) w"
    from Pair None have l: "listedProjects e r = concat pages" by (simp add: listedProjects_def)
    have c: "concat (map (map ?conv) pages) = map ?conv (concat pages)"
      by (simp add: map_concat)
    have g: "GetProjectPolicyRows e r w = projectRows e (map ?conv (concat pages)) [] ?w"
      using Pair None c by (simp add: GetProjectPolicyRows_def ProjectsList_def ProjectsListByFilter_def)
    from projectRows_cases [of e "map ?conv (concat pages)" "[]" ?w]
    show ?thesis
      unfolding g using Pair None l
      by (auto simp: projectFails_def isl_def)
  qed
qed

lemma GetAllPolicyRows_cases:
  "(\<exists>err w'. GetAllPolicyRows e r w = Inr ((None, Some err), w') \<and> collaboratorFails e r err)
   \<or> (\<exists>os fs ps w'. GetAllPolicyRows e r w = Inr ((Some (os @ fs @ ps), None), w')
         \<and> (\<forall>x \<in> set os. Type x = ''organization'')
         \<and> (\<forall>x \<in> set fs. Type x = ''folder'')
         \<and> (\<forall>x \<in> set ps. Type x = ''project'')
         \<and> (\<forall>err. \<not> collaboratorFails e r err))"
proof -
  from GetOrgPolicyRows_cases [of e r w] show ?thesis
  proof (elim disjE exE conjE)
    fix rows' err w1
    assume "GetOrgPolicyRows e r w = Inr ((rows', Some err), w1)" "orgFails e r err"
    then show ?thesis by (simp add: GetAllPolicyRows_def collaboratorFails_def)
  next
    fix os w1
    assume o: "GetOrgPolicyRows e r w = Inr ((os, None), w1)"
      and ot: "\<forall>x \<in> set os. Type x = ''organization''"
      and ok1: "\<forall>err. \<not> orgFails e r err"
    from GetFolderPolicyRows_cases [of e r w1] show ?thesis
    proof (elim disjE exE conjE)
      fix rows' err w2
      assume "GetFolderPolicyRows e r w1 = Inr ((rows', Some err), w2)" "folderFails e r err"
      with o show ?thesis by (simp add: GetAllPolicyRows_def collaboratorFails_def)
    next
      fix fs w2
      assume f: "GetFolderPolicyRows e r w1 = Inr ((fs, None), w2)"
        and ft: "\<forall>x \<in> set fs. Type x = ''folder''"
        and ok2: "\<forall>err. \<not> folderFails e r err"
      from GetProjectPolicyRows_cases [of e r w2] show ?thesis
      proof (elim disjE exE conjE)
        fix rows' err w3
        assume "GetProjectPolicyRows e r w2 = Inr ((rows', Some err), w3)" "projectFails e r err"
        with o f show ?thesis by (simp add: GetAllPolicyRows_def collaboratorFails_def)
      next
        fix ps w3
        assume p: "GetProjectPolicyRows e r w2 = Inr ((ps, None), w3)"
          and pt: "\<forall>x \<in> set ps. Type x = ''project''"
          and ok3: "\<forall>err. \<not> projectFails e r err"
        from o f p have "GetAllPolicyRows e r w = Inr ((Some (os @ fs @ ps), None), w3)"
          by (simp add: GetAllPolicyRows_def)
        with ot ft pt ok1 ok2 ok3 show ?thesis
          unfolding collaboratorFails_def by blast
      qed
    qed
  qed
qed

text \<open>
  Claim C4. When a call of the aggregation fails (the policy of the organization, the
  listing of the folders or of the projects, the policy of a listed folder or project),
  \<^verbatim>\<open>GetAllPolicyRows\<close> returns the nil pointer in place of the rows, whatever the tiers
  before the failure had collected, and the error of a failing call.
\<close>

theorem fail_fast:
  assumes "collaboratorFails e r err0"
  shows "\<exists>err w'. GetAllPolicyRows e r w = Inr ((None, Some err), w') \<and> collaboratorFails e r err"
  using GetAllPolicyRows_cases [of e r w] assms by blast

text \<open>
  Three folders, the policy of the second cannot be read: the run returns that error and
  no rows, the two rows of the organization included.
\<close>

theorem fail_fast_witness:
  "collaboratorFails env_denied rm_O (Collab ''permission denied'')
   \<and> GetAllPolicyRows env_denied rm_O world0
     = Inr ((None, Some (Collab ''permission denied'')),
            world0\<lparr>calls := [OrganizationsGetIamPolicy ''organizations/O'',
                              FoldersListPages ''organizations/O'',
                              FoldersGetIamPolicy ''folders/1'', FoldersGetIamPolicy ''folders/2''],
                    errlog := [LogFolderError ''folders/2'' (Collab ''permission denied'')]\<rparr>)"
proof -
  have h: "collaboratorFails env_denied rm_O (Collab ''permission denied'')"
    by (simp add: collaboratorFails_def folderFails_def listedFolders_def env_denied_def
        env_org_def env_base_def rm_O_def)
  have run: "GetAllPolicyRows env_denied rm_O world0
     = Inr ((None, Some (Collab ''permission denied'')),
            world0\<lparr>calls := [OrganizationsGetIamPolicy ''organizations/O'',
                              FoldersListPages ''organizations/O'',
                              FoldersGetIamPolicy ''folders/1'', FoldersGetIamPolicy ''folders/2''],
                    errlog := [LogFolderError ''folders/2'' (Collab ''permission denied'')]\<rparr>)"
    by (simp add: GetAllPolicyRows_def GetOrgPolicyRows_def GetFolderPolicyRows_def
        GetIamPolicyForOrganization_eq GetIamPolicyForFolder_eq FoldersList_def
        env_denied_def env_org_def env_base_def rm_O_def world0_def called_def logged_def
        normalV1_def normalV2_def Let_def)
  from fail_fast [OF h, of world0] h run show ?thesis by simp
qed

lemma tiers_sorted:
  assumes "\<forall>x \<in> set os. Type x = ''organization''"
    and "\<forall>x \<in> set fs. Type x = ''folder''"
    and "\<forall>x \<in> set ps. Type x = ''project''"
  shows "sorted_wrt (\<lambda>x y. (Type y = ''organization'' \<longrightarrow> Type x = ''organization'')
                         \<and> (Type x = ''project'' \<longrightarrow> Type y = ''project'')) (os @ fs @ ps)"
proof -
  let ?R = "\<lambda>x y. (Type y = ''organization'' \<longrightarrow> Type x = ''organization'')
                         \<and> (Type x = ''project'' \<longrightarrow> Type y = ''project'')"
  have same: "sorted_wrt ?R xs" if "\<forall>x \<in> set xs. Type x = t" for xs t
    using that by (induction xs) auto
  have "sorted_wrt ?R os" "sorted_wrt ?R fs" "sorted_wrt ?R ps"
    using assms by (blast intro: same)+
  with assms show ?thesis
    by (auto simp: sorted_wrt_append)
qed

text \<open>
  Claim C7. In the rows of a run that succeeds, every row is of type \<open>organization\<close>,
  \<open>folder\<close> or \<open>project\<close>; every organization row comes before every folder row and
  before every project row, and every folder row before every project row, whatever the
  listings report.
\<close>

theorem tier_order:
  assumes run: "GetAllPolicyRows e r w = Inr ((Some rows, None), w')"
    and i: "i < length rows" and j: "j < length rows"
  shows "Type (rows ! i) \<in> {''organization'', ''folder'', ''project''}
    \<and> (Type (rows ! i) = ''organization'' \<and> Type (rows ! j) = ''folder'' \<longrightarrow> i < j)
    \<and> (Type (rows ! i) = ''folder'' \<and> Type (rows ! j) = ''project'' \<longrightarrow> i < j)
    \<and> (Type (rows ! i) = ''organization'' \<and> Type (rows ! j) = ''project'' \<longrightarrow> i < j)"
proof -
  from GetAllPolicyRows_cases [of e r w] run obtain os fs ps where
    rows: "rows = os @ fs @ ps"
    and ot: "\<forall>x \<in> set os. Type x = ''organization''"
    and ft: "\<forall>x \<in> set fs. Type x = ''folder''"
    and pt: "\<forall>x \<in> set ps. Type x = ''project''"
    by auto
  let ?R = "\<lambda>x y. (Type y = ''organization'' \<longrightarrow> Type x = ''organization'')
                         \<and> (Type x = ''project'' \<longrightarrow> Type y = ''project'')"
  have s: "sorted_wrt ?R rows" unfolding rows by (rule tiers_sorted [OF ot ft pt])
  have earlier: "?R (rows ! j) (rows ! i)" if "j < i"
    using sorted_wrt_nth_less [OF s that i] .
  have "rows ! i \<in> set rows" using i by simp
  then have t: "Type (rows ! i) \<in> {''organization'', ''folder'', ''project''}"
    unfolding rows using ot ft pt by auto
  have "i < j" if "Type (rows ! i) \<noteq> Type (rows ! j)"
     "Type (rows ! j) \<noteq> ''organization''" "Type (rows ! i) \<noteq> ''project''"
     "Type (rows ! j) = ''project'' \<or> Type (rows ! i) = ''organization''"
  proof (rule ccontr)
    assume "\<not> i < j"
    with that(1) have "j < i" by (cases "i = j") auto
    from earlier [OF this] that show False by auto
  qed
  with t show ?thesis by auto
qed

text \<open>
  The organization \<open>O\<close>: two rows of the organization, none of the folders, one of the
  project, in this order.
\<close>

theorem tier_order_witness:
  "(\<exists>w'. GetAllPolicyRows env_org rm_O world0
      = Inr ((Some [\<lparr>Resource = ''O'', Type = ''organization'', Role = ''roles/viewer'', Member = ''user:a@x.com''\<rparr>,
                    \<lparr>Resource = ''O'', Type = ''organization'', Role = ''roles/viewer'', Member = ''group:g@x.com''\<rparr>,
                    \<lparr>Resource = ''P'', Type = ''project'', Role = ''roles/editor'', Member = ''user:b@x.com''\<rparr>],
              None), w'))
   \<and> Type ([\<lparr>Resource = ''O'', Type = ''organization'', Role = ''roles/viewer'', Member = ''user:a@x.com''\<rparr>,
             \<lparr>Resource = ''O'', Type = ''organization'', Role = ''roles/viewer'', Member = ''group:g@x.com''\<rparr>,
             \<lparr>Resource = ''P'', Type = ''project'', Role = ''roles/editor'', Member = ''user:b@x.com''\<rparr>] ! 1)
       = ''organization''
   \<and> Type ([\<lparr>Resource = ''O'', Type = ''organization'', Role = ''roles/viewer'', Member = ''user:a@x.com''\<rparr>,
             \<lparr>Resource = ''O'', Type = ''organization'', Role = ''roles/viewer'', Member = ''group:g@x.com''\<rparr>,
             \<lparr>Resource = ''P'', Type = ''project'', Role = ''roles/editor'', Member = ''user:b@x.com''\<rparr>] ! 2)
       = ''project''
   \<and> (1::nat) < 2"
proof -
  let ?rows = "[\<lparr>Resource = ''O'', Type = ''organization'', Role = ''roles/viewer'', Member = ''user:a@x.com''\<rparr>,
                    \<lparr>Resource = ''O'', Type = ''organization'', Role = ''roles/viewer'', Member = ''group:g@x.com''\<rparr>,
                    \<lparr>Resource = ''P'', Type = ''project'', Role = ''roles/editor'', Member = ''user:b@x.com''\<rparr>]"
  have run: "\<exists>w'. GetAllPolicyRows env_org rm_O world0 = Inr ((Some ?rows, None), w')"
    by (simp add: GetAllPolicyRows_def GetOrgPolicyRows_def GetFolderPolicyRows_def
        GetProjectPolicyRows_def ProjectsList_def ProjectsListByFilter_def
        GetIamPolicyForOrganization_eq GetIamPolicyForFolder_eq GetIamPolicyForProject_eq
        FoldersList_def env_org_def env_base_def rm_O_def world0_def called_def
        normalV1_def normalV2_def Let_def)
  then obtain w' where r: "GetAllPolicyRows env_org rm_O world0 = Inr ((Some ?rows, None), w')" ..
  have len: "1 < length ?rows" "2 < length ?rows" by simp_all
  have ty: "Type (?rows ! 1) = ''organization''" "Type (?rows ! 2) = ''project''" by simp_all
  from tier_order [OF r len] ty have "(1::nat) < 2" by blast
  with run ty show ?thesis by blast
qed

section \<open>Construction of the resource manager\<close>

lemma called_simps [simp]:
  "calls (called c w) = calls w @ [c]" "errlog (called c w) = errlog w"
  "stdout (called c w) = stdout w" "written (called c w) = written w"
  by (simp_all add: called_def)

lemma logged_simps [simp]:
  "calls (logged l w) = calls w" "errlog (logged l w) = errlog w @ [l]"
  "stdout (logged l w) = stdout w" "written (logged l w) = written w"
  by (simp_all add: logged_def)

lemma printed_simps [simp]:
  "calls (printed s w) = calls w" "errlog (printed s w) = errlog w"
  "stdout (printed s w) = stdout w @ [s]" "written (printed s w) = written w"
  by (simp_all add: printed_def)

lemma getProjectIdFromCredentials_effects:
  "\<exists>cs. calls (snd (getProjectIdFromCredentials e w cp)) = calls w @ FindDefaultCredentials # cs
     \<and> (\<forall>c \<in> set cs. credentialCall c)
     \<and> errlog (snd (getProjectIdFromCredentials e w cp)) = errlog w
     \<and> written (snd (getProjectIdFromCredentials e w cp)) = written w"
  by (auto simp: getProjectIdFromCredentials_def Let_def split: sum.splits option.splits)

lemma getProjectIdFromCredentials_fst:
  "fst (getProjectIdFromCredentials e w cp) = fst (getProjectIdFromCredentials e w' cp)"
  by (auto simp: getProjectIdFromCredentials_def Let_def split: sum.splits option.splits)

lemma GetOrgIdFromProjectId_effects:
  assumes "GetOrgIdFromProjectId e r w projectId = Inr (res, r', w')"
  shows "calls w' = calls w @ [ProjectsGetAncestry projectId] \<and> errlog w' = errlog w
    \<and> written w' = written w \<and> roleMap r' = roleMap r"
  using assms
  by (auto simp: GetOrgIdFromProjectId_def GetAncestryForProject_def Let_def
      split: sum.splits option.splits if_splits prod.splits)

lemma GetOrgIdFromProjectId_fail:
  "projectsGetAncestry e projectId = Inl err \<Longrightarrow>
   GetOrgIdFromProjectId e r w projectId
     = Inr (Some (NoOrgForProjectError projectId err), r, called (ProjectsGetAncestry projectId) w)"
  by (simp add: GetOrgIdFromProjectId_def GetAncestryForProject_def)

lemma NewResourceManager_explicit_org:
  assumes "newServiceV1 e = None" "newServiceV2 e = None" "newServiceIam e = None"
    and "orgId0 \<noteq> []"
  shows "NewResourceManager e w cp orgId0 projectId0
     = Inr (Inr \<lparr>orgId = orgId0, roleMap = Map.empty\<rparr>,
            w\<lparr>calls := calls w @ [NewServiceV1, NewServiceV2, NewServiceIam]\<rparr>)"
  using assms by (simp add: NewResourceManager_def called_def)

lemma NewResourceManager_alt:
  assumes "newServiceV1 e = None" "newServiceV2 e = None" "newServiceIam e = None"
  shows "NewResourceManager e w cp [] projectId0 =
     (let w3 = called NewServiceIam (called NewServiceV2 (called NewServiceV1 w));
          r = \<lparr>orgId = [], roleMap = Map.empty\<rparr>;
          w4 = printed (''OrgId not specified, checking by ProjectId'' @ newline) w3 in
      if projectId0 = [] then
        (case getProjectIdFromCredentials e
                (printed (''ProjectId not specified, getting ProjectId from credentials'' @ newline) w4) cp of
           (Inl err, w5) \<Rightarrow> Inr (Inl (NoOrgIdError err), w5)
         | (Inr p, w5) \<Rightarrow>
             (case GetOrgIdFromProjectId e r w5 p of
                Inl pn \<Rightarrow> Inl pn
              | Inr (Some err, r', w6) \<Rightarrow> Inr (Inl (OrgIdFromProjectError p err), w6)
              | Inr (None, r', w6) \<Rightarrow> Inr (Inr r', w6)))
      else
        (case GetOrgIdFromProjectId e r w4 projectId0 of
           Inl pn \<Rightarrow> Inl pn
         | Inr (Some err, r', w6) \<Rightarrow> Inr (Inl (OrgIdFromProjectError [] err), w6)
         | Inr (None, r', w6) \<Rightarrow> Inr (Inr r', w6)))"
  using assms
  by (simp add: NewResourceManager_def Let_def split: prod.splits sum.splits)

lemma NewResourceManager_explicit_project:
  assumes ok: "newServiceV1 e = None" "newServiceV2 e = None" "newServiceIam e = None"
    and p: "projectId0 \<noteq> []"
    and run: "NewResourceManager e w cp [] projectId0 = Inr (res, w')"
  shows "calls w' = calls w @ [NewServiceV1, NewServiceV2, NewServiceIam] @ [ProjectsGetAncestry projectId0]"
proof -
  let ?w4 = "printed (''OrgId not specified, checking by ProjectId'' @ newline)
               (called NewServiceIam (called NewServiceV2 (called NewServiceV1 w)))"
  from run p obtain x r' where g: "GetOrgIdFromProjectId e \<lparr>orgId = [], roleMap = Map.empty\<rparr> ?w4 projectId0
      = Inr (x, r', w')"
    unfolding NewResourceManager_alt [OF ok]
    by (auto simp: Let_def split: sum.splits option.splits prod.splits)
  from GetOrgIdFromProjectId_effects [OF g] show ?thesis by simp
qed

lemma NewResourceManager_credentials:
  assumes ok: "newServiceV1 e = None" "newServiceV2 e = None" "newServiceIam e = None"
    and run: "NewResourceManager e w cp [] [] = Inr (res, w')"
  shows "\<exists>cs. calls w' = calls w @ [NewServiceV1, NewServiceV2, NewServiceIam] @ FindDefaultCredentials # cs
     \<and> (case fst (getProjectIdFromCredentials e w cp) of
           Inl err \<Rightarrow> res = Inl (NoOrgIdError err) \<and> (\<forall>c \<in> set cs. credentialCall c)
         | Inr p \<Rightarrow> \<exists>cs'. cs = cs' @ [ProjectsGetAncestry p] \<and> (\<forall>c \<in> set cs'. credentialCall c))"
proof -
  let ?w5 = "printed (''ProjectId not specified, getting ProjectId from credentials'' @ newline)
              (printed (''OrgId not specified, checking by ProjectId'' @ newline)
               (called NewServiceIam (called NewServiceV2 (called NewServiceV1 w))))"
  obtain x w6 where c: "getProjectIdFromCredentials e ?w5 cp = (x, w6)" by (cases "getProjectIdFromCredentials e ?w5 cp")
  from getProjectIdFromCredentials_effects [of e ?w5 cp] c
  obtain cs where cs: "calls w6 = calls w @ [NewServiceV1, NewServiceV2, NewServiceIam] @ FindDefaultCredentials # cs"
    and cred: "\<forall>c \<in> set cs. credentialCall c"
    by auto
  from getProjectIdFromCredentials_fst [of e ?w5 cp w] c
  have x: "fst (getProjectIdFromCredentials e w cp) = x" by simp
  show ?thesis
  proof (cases x)
    case (Inl err)
    with run c have "res = Inl (NoOrgIdError err)" "w' = w6"
      unfolding NewResourceManager_alt [OF ok] by (simp_all add: Let_def)
    with cs cred x Inl show ?thesis by simp
  next
    case (Inr p)
    with run c obtain y r' where g: "GetOrgIdFromProjectId e \<lparr>orgId = [], roleMap = Map.empty\<rparr> w6 p
      = Inr (y, r', w')"
      unfolding NewResourceManager_alt [OF ok]
      by (auto simp: Let_def split: sum.splits option.splits prod.splits)
    from GetOrgIdFromProjectId_effects [OF g] cs
    have "calls w' = calls w @ [NewServiceV1, NewServiceV2, NewServiceIam]
        @ FindDefaultCredentials # (cs @ [ProjectsGetAncestry p])"
      by simp
    with cred x Inr show ?thesis by auto
  qed
qed

lemma NewResourceManager_no_credentials:
  assumes ok: "newServiceV1 e = None" "newServiceV2 e = None" "newServiceIam e = None"
    and c: "fst (getProjectIdFromCredentials e w cp) = Inl err"
  shows "\<exists>w'. NewResourceManager e w cp [] [] = Inr (Inl (NoOrgIdError err), w')"
proof -
  let ?w5 = "printed (''ProjectId not specified, getting ProjectId from credentials'' @ newline)
              (printed (''OrgId not specified, checking by ProjectId'' @ newline)
               (called NewServiceIam (called NewServiceV2 (called NewServiceV1 w))))"
  from c getProjectIdFromCredentials_fst [of e ?w5 cp w]
  have "fst (getProjectIdFromCredentials e ?w5 cp) = Inl err" by simp
  then show ?thesis
    unfolding NewResourceManager_alt [OF ok]
    by (cases "getProjectIdFromCredentials e ?w5 cp") (simp add: Let_def)
qed

lemma NewResourceManager_no_ancestry_explicit:
  assumes ok: "newServiceV1 e = None" "newServiceV2 e = None" "newServiceIam e = None"
    and p: "projectId0 \<noteq> []"
    and a: "projectsGetAncestry e projectId0 = Inl err"
  shows "\<exists>w'. NewResourceManager e w cp [] projectId0
     = Inr (Inl (OrgIdFromProjectError [] (NoOrgForProjectError projectId0 err)), w')"
  unfolding NewResourceManager_alt [OF ok]
  using p by (simp add: Let_def GetOrgIdFromProjectId_fail [OF a])

lemma NewResourceManager_no_ancestry_credentials:
  assumes ok: "newServiceV1 e = None" "newServiceV2 e = None" "newServiceIam e = None"
    and c: "fst (getProjectIdFromCredentials e w cp) = Inr p"
    and a: "projectsGetAncestry e p = Inl err"
  shows "\<exists>w'. NewResourceManager e w cp [] []
     = Inr (Inl (OrgIdFromProjectError p (NoOrgForProjectError p err)), w')"
proof -
  let ?w5 = "printed (''ProjectId not specified, getting ProjectId from credentials'' @ newline)
              (printed (''OrgId not specified, checking by ProjectId'' @ newline)
               (called NewServiceIam (called NewServiceV2 (called NewServiceV1 w))))"
  from c getProjectIdFromCredentials_fst [of e ?w5 cp w]
  have "fst (getProjectIdFromCredentials e ?w5 cp) = Inr p" by simp
  then show ?thesis
    unfolding NewResourceManager_alt [OF ok]
    by (cases "getProjectIdFromCredentials e ?w5 cp") (simp add: Let_def GetOrgIdFromProjectId_fail [OF a])
qed

text \<open>Construction makes no listing call and writes nothing, whatever it returns.\<close>

lemma NewResourceManager_effects:
  assumes run: "NewResourceManager e w cp orgId0 projectId0 = Inr (res, w')"
  shows "\<exists>cs. calls w' = calls w @ cs \<and> (\<forall>c \<in> set cs. \<not> listingCall c)
     \<and> written w' = written w \<and> errlog w' = errlog w"
proof (cases "newServiceV1 e = None \<and> newServiceV2 e = None \<and> newServiceIam e = None")
  case False
  with run show ?thesis
    by (auto simp: NewResourceManager_def Let_def split: option.splits)
next
  case True
  then have ok: "newServiceV1 e = None" "newServiceV2 e = None" "newServiceIam e = None" by simp_all
  show ?thesis
  proof (cases "orgId0 = []")
    case False
    from run NewResourceManager_explicit_org [OF ok False, of w cp projectId0]
    show ?thesis by auto
  next
    case o: True
    let ?w4 = "printed (''OrgId not specified, checking by ProjectId'' @ newline)
               (called NewServiceIam (called NewServiceV2 (called NewServiceV1 w)))"
    let ?w5 = "printed (''ProjectId not specified, getting ProjectId from credentials'' @ newline) ?w4"
    show ?thesis
    proof (cases "projectId0 = []")
      case False
      from run o False obtain x r' where g: "GetOrgIdFromProjectId e \<lparr>orgId = [], roleMap = Map.empty\<rparr> ?w4 projectId0
          = Inr (x, r', w')"
        unfolding o NewResourceManager_alt [OF ok]
        by (auto simp: Let_def split: sum.splits option.splits prod.splits)
      from GetOrgIdFromProjectId_effects [OF g] show ?thesis by simp
    next
      case p: True
      obtain x w6 where c: "getProjectIdFromCredentials e ?w5 cp = (x, w6)"
        by (cases "getProjectIdFromCredentials e ?w5 cp")
      from getProjectIdFromCredentials_effects [of e ?w5 cp] c
      obtain cs where cs: "calls w6 = calls w @ [NewServiceV1, NewServiceV2, NewServiceIam] @ FindDefaultCredentials # cs"
        and cred: "\<forall>c \<in> set cs. credentialCall c"
        and fr: "errlog w6 = errlog w" "written w6 = written w"
        by auto
      have nl: "\<not> listingCall c" if "credentialCall c" for c
        using that by (cases c) simp_all
      show ?thesis
      proof (cases x)
        case (Inl err)
        with run c have "w' = w6"
          unfolding o p NewResourceManager_alt [OF ok] by (simp add: Let_def)
        with cs cred fr nl show ?thesis by auto
      next
        case (Inr q)
        with run c obtain y r' where g: "GetOrgIdFromProjectId e \<lparr>orgId = [], roleMap = Map.empty\<rparr> w6 q
          = Inr (y, r', w')"
          unfolding o p NewResourceManager_alt [OF ok]
          by (auto simp: Let_def split: sum.splits option.splits prod.splits)
        from GetOrgIdFromProjectId_effects [OF g] cs fr cred nl show ?thesis by auto
      qed
    qed
  qed
qed

lemma NewResourceManager_roleMap:
  "NewResourceManager e w cp orgId0 projectId0 = Inr (Inr rm, w') \<Longrightarrow> roleMap rm = Map.empty"
  by (auto simp: NewResourceManager_def Let_def
      split: option.splits sum.splits prod.splits if_splits
      dest!: GetOrgIdFromProjectId_effects)

lemma printToCsv_construction_fails:
  assumes "osStat e filename = Some nf" "osCreate e (''tmp.'' @ filename) = None"
    and "fprintf e [] (''Resource,Type,Member,Role,Permission'' @ newline) = None"
    and "NewResourceManager e
           ((called (OsCreate (''tmp.'' @ filename)) (called (OsStat filename) w))
              \<lparr>written := [''Resource,Type,Member,Role,Permission'' @ newline]\<rparr>)
           cp orgId0 projectId0 = Inr (Inl err, w')"
  shows "printToCsv e w filename cp orgId0 projectId0 = Inr (Some err, w')"
  using assms by (simp add: printToCsv_def Let_def)

text \<open>
  Claim C8. With the three services created: when an organization id is given, the
  resource manager is returned with it after the three service creations and no other
  call; when none is given but a project id is, the only further call is the ancestry
  lookup of that project id, and no credential lookup is made; when neither is given,
  the credential discovery is run and, if it finds a project id, the ancestry lookup is
  made for that id and is the last call. When the credential discovery fails, or the
  ancestry lookup of the chosen project fails, construction returns an error that wraps
  the failure; and when construction returns an error, \<^verbatim>\<open>printToCsv\<close> returns it
  without any listing or policy call having been made.
\<close>

theorem org_id_fallback:
  assumes ok: "newServiceV1 e = None" "newServiceV2 e = None" "newServiceIam e = None"
  shows "(orgId0 \<noteq> [] \<longrightarrow>
            NewResourceManager e w cp orgId0 projectId0
              = Inr (Inr \<lparr>orgId = orgId0, roleMap = Map.empty\<rparr>,
                     w\<lparr>calls := calls w @ [NewServiceV1, NewServiceV2, NewServiceIam]\<rparr>))
    \<and> (projectId0 \<noteq> [] \<longrightarrow>
          (\<forall>res w'. NewResourceManager e w cp [] projectId0 = Inr (res, w') \<longrightarrow>
             calls w' = calls w @ [NewServiceV1, NewServiceV2, NewServiceIam]
                        @ [ProjectsGetAncestry projectId0]))
    \<and> (\<forall>res w'. NewResourceManager e w cp [] [] = Inr (res, w') \<longrightarrow>
          (\<exists>cs. calls w' = calls w @ [NewServiceV1, NewServiceV2, NewServiceIam]
                            @ FindDefaultCredentials # cs
             \<and> (case fst (getProjectIdFromCredentials e w cp) of
                   Inl err \<Rightarrow> res = Inl (NoOrgIdError err) \<and> (\<forall>c \<in> set cs. credentialCall c)
                 | Inr p \<Rightarrow> \<exists>cs'. cs = cs' @ [ProjectsGetAncestry p] \<and> (\<forall>c \<in> set cs'. credentialCall c))))
    \<and> (\<forall>err. fst (getProjectIdFromCredentials e w cp) = Inl err \<longrightarrow>
          (\<exists>w'. NewResourceManager e w cp [] [] = Inr (Inl (NoOrgIdError err), w')))
    \<and> (\<forall>err. projectId0 \<noteq> [] \<and> projectsGetAncestry e projectId0 = Inl err \<longrightarrow>
          (\<exists>w'. NewResourceManager e w cp [] projectId0
             = Inr (Inl (OrgIdFromProjectError [] (NoOrgForProjectError projectId0 err)), w')))
    \<and> (\<forall>p err. fst (getProjectIdFromCredentials e w cp) = Inr p \<and> projectsGetAncestry e p = Inl err \<longrightarrow>
          (\<exists>w'. NewResourceManager e w cp [] []
             = Inr (Inl (OrgIdFromProjectError p (NoOrgForProjectError p err)), w')))
    \<and> (\<forall>nf err w'.
          osStat e filename = Some nf \<and> osCreate e (''tmp.'' @ filename) = None
          \<and> fprintf e [] (''Resource,Type,Member,Role,Permission'' @ newline) = None
          \<and> NewResourceManager e
               ((called (OsCreate (''tmp.'' @ filename)) (called (OsStat filename) w))
                  \<lparr>written := [''Resource,Type,Member,Role,Permission'' @ newline]\<rparr>)
               cp orgId0 projectId0 = Inr (Inl err, w')
          \<longrightarrow> printToCsv e w filename cp orgId0 projectId0 = Inr (Some err, w')
              \<and> (\<exists>cs. calls w' = calls w @ [OsStat filename, OsCreate (''tmp.'' @ filename)] @ cs
                    \<and> (\<forall>c \<in> set cs. \<not> listingCall c)))"
proof (intro conjI allI impI)
  assume "orgId0 \<noteq> []"
  then show "NewResourceManager e w cp orgId0 projectId0
      = Inr (Inr \<lparr>orgId = orgId0, roleMap = Map.empty\<rparr>,
             w\<lparr>calls := calls w @ [NewServiceV1, NewServiceV2, NewServiceIam]\<rparr>)"
    by (rule NewResourceManager_explicit_org [OF ok])
next
  fix res w'
  assume "projectId0 \<noteq> []" "NewResourceManager e w cp [] projectId0 = Inr (res, w')"
  then show "calls w' = calls w @ [NewServiceV1, NewServiceV2, NewServiceIam]
      @ [ProjectsGetAncestry projectId0]"
    by (rule NewResourceManager_explicit_project [OF ok])
next
  fix res w'
  assume "NewResourceManager e w cp [] [] = Inr (res, w')"
  then show "\<exists>cs. calls w' = calls w @ [NewServiceV1, NewServiceV2, NewServiceIam]
                            @ FindDefaultCredentials # cs
             \<and> (case fst (getProjectIdFromCredentials e w cp) of
                   Inl err \<Rightarrow> res = Inl (NoOrgIdError err) \<and> (\<forall>c \<in> set cs. credentialCall c)
                 | Inr p \<Rightarrow> \<exists>cs'. cs = cs' @ [ProjectsGetAncestry p] \<and> (\<forall>c \<in> set cs'. credentialCall c))"
    by (rule NewResourceManager_credentials [OF ok])
next
  fix err
  assume "fst (getProjectIdFromCredentials e w cp) = Inl err"
  then show "\<exists>w'. NewResourceManager e w cp [] [] = Inr (Inl (NoOrgIdError err), w')"
    by (rule NewResourceManager_no_credentials [OF ok])
next
  fix err
  assume "projectId0 \<noteq> [] \<and> projectsGetAncestry e projectId0 = Inl err"
  then show "\<exists>w'. NewResourceManager e w cp [] projectId0
             = Inr (Inl (OrgIdFromProjectError [] (NoOrgForProjectError projectId0 err)), w')"
    using NewResourceManager_no_ancestry_explicit [OF ok] by blast
next
  fix p err
  assume "fst (getProjectIdFromCredentials e w cp) = Inr p \<and> projectsGetAncestry e p = Inl err"
  then show "\<exists>w'. NewResourceManager e w cp [] []
             = Inr (Inl (OrgIdFromProjectError p (NoOrgForProjectError p err)), w')"
    using NewResourceManager_no_ancestry_credentials [OF ok] by blast
next
  fix nf err w'
  assume a: "osStat e filename = Some nf \<and> osCreate e (''tmp.'' @ filename) = None
          \<and> fprintf e [] (''Resource,Type,Member,Role,Permission'' @ newline) = None
          \<and> NewResourceManager e
               ((called (OsCreate (''tmp.'' @ filename)) (called (OsStat filename) w))
                  \<lparr>written := [''Resource,Type,Member,Role,Permission'' @ newline]\<rparr>)
               cp orgId0 projectId0 = Inr (Inl err, w')"
  then show "printToCsv e w filename cp orgId0 projectId0 = Inr (Some err, w')"
    using printToCsv_construction_fails by blast
next
  fix nf err w'
  assume a: "osStat e filename = Some nf \<and> osCreate e (''tmp.'' @ filename) = None
          \<and> fprintf e [] (''Resource,Type,Member,Role,Permission'' @ newline) = None
          \<and> NewResourceManager e
               ((called (OsCreate (''tmp.'' @ filename)) (called (OsStat filename) w))
                  \<lparr>written := [''Resource,Type,Member,Role,Permission'' @ newline]\<rparr>)
               cp orgId0 projectId0 = Inr (Inl err, w')"
  from a NewResourceManager_effects
  have "\<exists>cs. calls w' = calls ((called (OsCreate (''tmp.'' @ filename)) (called (OsStat filename) w))
                  \<lparr>written := [''Resource,Type,Member,Role,Permission'' @ newline]\<rparr>) @ cs
       \<and> (\<forall>c \<in> set cs. \<not> listingCall c)"
    by blast
  then show "\<exists>cs. calls w' = calls w @ [OsStat filename, OsCreate (''tmp.'' @ filename)] @ cs
                    \<and> (\<forall>c \<in> set cs. \<not> listingCall c)"
    by simp
qed

text \<open>
  The three ways to the organization \<open>O\<close>, and a run without organization id, project
  id or credentials.
\<close>

theorem org_id_fallback_witness:
  "NewResourceManager env_cred world0 [] ''O'' []
     = Inr (Inr rm_O, world0\<lparr>calls := [NewServiceV1, NewServiceV2, NewServiceIam]\<rparr>)
   \<and> (\<exists>w'. NewResourceManager env_cred world0 [] [] ''p-1'' = Inr (Inr rm_O, w')
         \<and> calls w' = [NewServiceV1, NewServiceV2, NewServiceIam, ProjectsGetAncestry ''p-1''])
   \<and> (\<exists>w'. NewResourceManager env_cred world0 [] [] [] = Inr (Inr rm_O, w')
         \<and> calls w' = [NewServiceV1, NewServiceV2, NewServiceIam, FindDefaultCredentials,
                        ProjectsGetAncestry ''p-1''])
   \<and> (\<exists>w'. NewResourceManager env_org world0 [] [] [] = Inr (Inl (NoOrgIdError NoDefaultCredentials), w')
         \<and> calls w' = [NewServiceV1, NewServiceV2, NewServiceIam, FindDefaultCredentials])
   \<and> (\<exists>w'. printToCsv env_org world0 ''out.csv'' [] [] [] = Inr (Some (NoOrgIdError NoDefaultCredentials), w')
         \<and> calls w' = [OsStat ''out.csv'', OsCreate ''tmp.out.csv'', NewServiceV1, NewServiceV2,
                        NewServiceIam, FindDefaultCredentials])"
proof -
  have ok: "newServiceV1 env_cred = None" "newServiceV2 env_cred = None" "newServiceIam env_cred = None"
    by (simp_all add: env_cred_def env_org_def env_base_def)
  have ok': "newServiceV1 env_org = None" "newServiceV2 env_org = None" "newServiceIam env_org = None"
    by (simp_all add: env_org_def env_base_def)
  note defs = NewResourceManager_def getProjectIdFromCredentials_def GetOrgIdFromProjectId_def
    GetAncestryForProject_def convertAncestors_def env_cred_def env_org_def env_base_def
    world0_def rm_O_def called_def printed_def Let_def printToCsv_def
  have 1: "NewResourceManager env_cred world0 [] ''O'' []
     = Inr (Inr rm_O, world0\<lparr>calls := [NewServiceV1, NewServiceV2, NewServiceIam]\<rparr>)"
    using org_id_fallback [OF ok, of "''O''" world0 "[]" "[]"] by (simp add: rm_O_def world0_def)
  have 2: "\<exists>w'. NewResourceManager env_cred world0 [] [] ''p-1'' = Inr (Inr rm_O, w')
         \<and> calls w' = [NewServiceV1, NewServiceV2, NewServiceIam, ProjectsGetAncestry ''p-1'']"
    by (simp add: defs)
  have 3: "\<exists>w'. NewResourceManager env_cred world0 [] [] [] = Inr (Inr rm_O, w')
         \<and> calls w' = [NewServiceV1, NewServiceV2, NewServiceIam, FindDefaultCredentials,
                        ProjectsGetAncestry ''p-1'']"
    by (simp add: defs)
  have c: "fst (getProjectIdFromCredentials env_org world0 []) = Inl NoDefaultCredentials"
    by (simp add: defs)
  have 4: "\<exists>w'. NewResourceManager env_org world0 [] [] [] = Inr (Inl (NoOrgIdError NoDefaultCredentials), w')
         \<and> calls w' = [NewServiceV1, NewServiceV2, NewServiceIam, FindDefaultCredentials]"
    using org_id_fallback [OF ok', of "[]" world0 "[]" "[]"] c by (simp add: defs)
  have 5: "\<exists>w'. printToCsv env_org world0 ''out.csv'' [] [] [] = Inr (Some (NoOrgIdError NoDefaultCredentials), w')
         \<and> calls w' = [OsStat ''out.csv'', OsCreate ''tmp.out.csv'', NewServiceV1, NewServiceV2,
                        NewServiceIam, FindDefaultCredentials]"
    by (simp add: defs)
  from 1 2 3 4 5 show ?thesis by blast
qed

section \<open>Properties of the output\<close>

lemma GetRole_frame:
  assumes "GetRole e r w row = (res, r', w')"
  shows "errlog w' = errlog w \<and> written w' = written w \<and> stdout w' = stdout w \<and> orgId r' = orgId r"
  using assms
  by (auto simp: GetRole_alt getRoleByUri_def split: option.splits sum.splits if_splits)

lemma getRoleByUri_consistent:
  assumes cons: "consistent e r" and run: "getRoleByUri e r w uri = (res, r', w')"
  shows "consistent e r' \<and> res = map_sum (UriError uri) id (rolesGet e uri)"
proof (cases "roleMap r uri")
  case (Some role)
  with cons have s: "rolesGet e uri = Inr role" by (simp add: consistent_def)
  from Some run have "res = Inr role" "r' = r" by (simp_all add: getRoleByUri_def)
  with cons show ?thesis by (simp add: s)
next
  case None
  show ?thesis
  proof (cases "rolesGet e uri")
    case (Inl err)
    with None run have "res = Inl (UriError uri err)" "r' = r" by (simp_all add: getRoleByUri_def)
    with cons show ?thesis by (simp add: Inl)
  next
    case (Inr role)
    with None run have "r' = r\<lparr>roleMap := (roleMap r)(uri \<mapsto> role)\<rparr>" "res = Inr role"
      by (simp_all add: getRoleByUri_def)
    with cons show ?thesis by (simp add: Inr consistent_def)
  qed
qed

lemma GetRole_consistent:
  assumes cons: "consistent e r" and run: "GetRole e r w row = (res, r', w')"
  shows "consistent e r'
    \<and> (unresolved e row \<longrightarrow> res = Inl (UriError (Role row) (projl (rolesGet e (Role row)))))
    \<and> (\<not> unresolved e row \<longrightarrow> (\<exists>role. res = Inr role \<and> IncludedPermissions role = permissionsOf e row))"
proof (cases "Type row = ''project'' \<or> Type row = ''organization''")
  case False
  with run have g: "getRoleByUri e r w (Role row) = (res, r', w')" by (simp add: GetRole_alt)
  from getRoleByUri_consistent [OF cons g] False show ?thesis
    by (cases "rolesGet e (Role row)") (auto simp: unresolved_def permissionsOf_def)
next
  case kind: True
  obtain res1 r1 w1 where g1: "getRoleByUri e r w (tryUri row) = (res1, r1, w1)"
    by (cases "getRoleByUri e r w (tryUri row)") auto
  from getRoleByUri_consistent [OF cons g1]
  have c1: "consistent e r1" and r1: "res1 = map_sum (UriError (tryUri row)) id (rolesGet e (tryUri row))"
    by simp_all
  show ?thesis
  proof (cases "rolesGet e (tryUri row)")
    case (Inr role)
    with run g1 r1 kind have "res = Inr role" "r' = r1" by (simp_all add: GetRole_alt)
    with c1 Inr kind show ?thesis by (auto simp: unresolved_def permissionsOf_def)
  next
    case (Inl err)
    with run g1 r1 kind have g2: "getRoleByUri e r1 w1 (Role row) = (res, r', w')"
      by (simp add: GetRole_alt)
    from getRoleByUri_consistent [OF c1 g2] Inl kind show ?thesis
      by (cases "rolesGet e (Role row)") (auto simp: unresolved_def permissionsOf_def)
  qed
qed

lemma printPermissions_accepted:
  assumes "\<forall>accepted text. fprintf e accepted text = None"
  shows "printPermissions e r ps w = w\<lparr>written := written w @ map (csvLine r) ps\<rparr>"
  using assms by (induction ps arbitrary: w) (simp_all add: Let_def)

lemma Row_Print_consistent:
  assumes cons: "consistent e rm" and acc: "\<forall>accepted text. fprintf e accepted text = None"
    and run: "Row_Print e rm w row = (res, rm', w')"
  shows "consistent e rm'
    \<and> written w' = written w @ map (csvLine row) (permissionsOf e row)
    \<and> (unresolved e row \<longrightarrow>
          res = Some (RowError row (UriError (Role row) (projl (rolesGet e (Role row)))))
          \<and> errlog w' = errlog w @ [LogText (''Error getting permissions for '' @ Role row @ newline)])
    \<and> (\<not> unresolved e row \<longrightarrow> res = None \<and> errlog w' = errlog w)"
proof -
  obtain g r1 w1 where g: "GetRole e rm w row = (g, r1, w1)"
    by (cases "GetRole e rm w row") auto
  note c = GetRole_consistent [OF cons g] and f = GetRole_frame [OF g]
  show ?thesis
  proof (cases "unresolved e row")
    case True
    with c have "g = Inl (UriError (Role row) (projl (rolesGet e (Role row))))" by simp
    with run g c f True show ?thesis
      by (auto simp: Row_Print_def GetRolePermissions_def printPermissions_accepted [OF acc]
          permissionsOf_def simp del: printPermissions.simps)
  next
    case False
    with c obtain role where "g = Inr role" "IncludedPermissions role = permissionsOf e row" by auto
    with run g c f False show ?thesis
      by (auto simp: Row_Print_def GetRolePermissions_def printPermissions_accepted [OF acc]
          simp del: printPermissions.simps)
  qed
qed

lemma printRows_consistent:
  assumes cons: "consistent e rm" and acc: "\<forall>accepted text. fprintf e accepted text = None"
    and run: "printRows e rm w rows = (rm', w')"
  shows "consistent e rm'
    \<and> written w' = written w @ concat (map (\<lambda>row. map (csvLine row) (permissionsOf e row)) rows)
    \<and> (\<forall>row \<in> set rows. unresolved e row \<longrightarrow>
          LogText (''Error getting permissions for '' @ Role row @ newline) \<in> set (errlog w'))
    \<and> set (errlog w) \<subseteq> set (errlog w')"
  using cons run
proof (induction rows arbitrary: rm w)
  case Nil
  then show ?case by simp
next
  case (Cons row rows)
  obtain res rm1 w1 where p: "Row_Print e rm w row = (res, rm1, w1)"
    by (cases "Row_Print e rm w row") auto
  note rp = Row_Print_consistent [OF Cons.prems(1) acc p]
  let ?w1 = "case res of None \<Rightarrow> w1 | Some err \<Rightarrow> logged (LogError err) w1"
  from Cons.prems(2) p have rest: "printRows e rm1 ?w1 rows = (rm', w')"
    by (cases res) simp_all
  from rp have c1: "consistent e rm1" by simp
  note ih = Cons.IH [OF c1 rest]
  have w1: "written ?w1 = written w @ map (csvLine row) (permissionsOf e row)"
    using rp by (cases res) simp_all
  have l1: "set (errlog w) \<subseteq> set (errlog ?w1)"
    using rp by (cases res; cases "unresolved e row") auto
  have l2: "unresolved e row \<Longrightarrow>
      LogText (''Error getting permissions for '' @ Role row @ newline) \<in> set (errlog ?w1)"
    using rp by (cases res) auto
  from ih w1 l1 l2 show ?case by auto
qed

lemma folderRows_written:
  "folderRows e fs rows w = Inr (res, w') \<Longrightarrow> written w' = written w"
  by (induction fs arbitrary: rows w)
     (auto simp: GetIamPolicyForFolder_eq split: sum.splits)

lemma projectRows_written:
  "projectRows e ps rows w = Inr (res, w') \<Longrightarrow> written w' = written w"
  by (induction ps arbitrary: rows w)
     (auto simp: GetIamPolicyForProject_eq split: sum.splits)

lemma GetAllPolicyRows_written:
  assumes "GetAllPolicyRows e r w = Inr (res, w')"
  shows "written w' = written w"
  using assms
  by (auto simp: GetAllPolicyRows_def GetOrgPolicyRows_def GetFolderPolicyRows_def
      GetProjectPolicyRows_def GetIamPolicyForOrganization_eq FoldersList_def ProjectsList_def
      ProjectsListByFilter_def Let_def
      split: sum.splits option.splits prod.splits
      dest!: folderRows_written projectRows_written)

lemma printToCsv_prints:
  assumes acc: "\<forall>accepted text. fprintf e accepted text = None"
    and files: "osStat e filename = Some nf" "osCreate e (''tmp.'' @ filename) = None"
      "osRename e (''tmp.'' @ filename) filename = None" "\<forall>accepted. writerFlush e accepted = None"
      "fileClose e = None"
    and new: "NewResourceManager e
           ((called (OsCreate (''tmp.'' @ filename)) (called (OsStat filename) w))
              \<lparr>written := [''Resource,Type,Member,Role,Permission'' @ newline]\<rparr>)
           cp orgId0 projectId0 = Inr (Inr rm, w3)"
    and rows: "GetAllPolicyRows e rm w3 = Inr ((Some rows, None), w4)"
  shows "\<exists>w'. printToCsv e w filename cp orgId0 projectId0 = Inr (None, w')
     \<and> written w' = (''Resource,Type,Member,Role,Permission'' @ newline)
          # concat (map (\<lambda>row. map (csvLine row) (permissionsOf e row)) rows)
     \<and> (\<forall>row \<in> set rows. unresolved e row \<longrightarrow>
          LogText (''Error getting permissions for '' @ Role row @ newline) \<in> set (errlog w'))"
proof -
  from NewResourceManager_effects [OF new] have w3: "written w3 = [''Resource,Type,Member,Role,Permission'' @ newline]"
    by auto
  from GetAllPolicyRows_written [OF rows] w3
  have w4: "written w4 = [''Resource,Type,Member,Role,Permission'' @ newline]" by simp
  from NewResourceManager_roleMap [OF new] have cons: "consistent e rm"
    by (simp add: consistent_def)
  obtain rm' w5 where p: "printRows e rm (printed (''Printing CSV'' @ newline) w4) rows = (rm', w5)"
    by (cases "printRows e rm (printed (''Printing CSV'' @ newline) w4) rows") auto
  from printRows_consistent [OF cons acc p] w4
  have w5: "written w5 = (''Resource,Type,Member,Role,Permission'' @ newline)
          # concat (map (\<lambda>row. map (csvLine row) (permissionsOf e row)) rows)"
    and l5: "\<forall>row \<in> set rows. unresolved e row \<longrightarrow>
          LogText (''Error getting permissions for '' @ Role row @ newline) \<in> set (errlog w5)"
    by simp_all
  let ?w' = "called FileClose (called WriterFlush (called (OsRename (''tmp.'' @ filename) filename) w5))"
  have "printToCsv e w filename cp orgId0 projectId0 = Inr (None, ?w')"
    using acc files new rows p by (simp add: printToCsv_def Let_def)
  with w5 l5 show ?thesis by simp
qed

text \<open>
  Claim C9. In a run whose writer accepts every write and whose cache holds only roles
  of the role service (the cache of a new resource manager is empty), the loop over the
  rows writes, for every row in order, one line per permission of its role, and for a
  row whose role the service resolves by none of its candidate URIs the single line
  with the permission \<open>UNKNOWN\<close>; the failure is logged with the role reference; and
  the loop goes on with the rows that follow. A run whose construction and aggregation
  succeed, and whose file operations succeed, returns no error whatever roles fail to
  resolve.
\<close>

theorem unresolved_rows_printed:
  assumes acc: "\<forall>accepted text. fprintf e accepted text = None"
    and cons: "consistent e rm"
  shows "(\<exists>rm' w'. printRows e rm w rows = (rm', w')
            \<and> written w' = written w @ concat (map (\<lambda>row. map (csvLine row) (permissionsOf e row)) rows)
            \<and> (\<forall>row \<in> set rows. unresolved e row \<longrightarrow>
                  permissionsOf e row = [''UNKNOWN'']
                  \<and> csvLine row ''UNKNOWN'' \<in> set (written w')
                  \<and> LogText (''Error getting permissions for '' @ Role row @ newline) \<in> set (errlog w')))
    \<and> (\<forall>nf rm0 w3 w4.
          osStat e filename = Some nf \<and> osCreate e (''tmp.'' @ filename) = None
          \<and> osRename e (''tmp.'' @ filename) filename = None
          \<and> (\<forall>accepted. writerFlush e accepted = None) \<and> fileClose e = None
          \<and> NewResourceManager e
               ((called (OsCreate (''tmp.'' @ filename)) (called (OsStat filename) w))
                  \<lparr>written := [''Resource,Type,Member,Role,Permission'' @ newline]\<rparr>)
               cp orgId0 projectId0 = Inr (Inr rm0, w3)
          \<and> GetAllPolicyRows e rm0 w3 = Inr ((Some rows, None), w4)
          \<longrightarrow> (\<exists>w'. printToCsv e w filename cp orgId0 projectId0 = Inr (None, w')
                 \<and> written w' = (''Resource,Type,Member,Role,Permission'' @ newline)
                      # concat (map (\<lambda>row. map (csvLine row) (permissionsOf e row)) rows)
                 \<and> (\<forall>row \<in> set rows. unresolved e row \<longrightarrow>
                       LogText (''Error getting permissions for '' @ Role row @ newline)
                         \<in> set (errlog w'))))"
proof (rule conjI)
  obtain rm' w' where p: "printRows e rm w rows = (rm', w')"
    by (cases "printRows e rm w rows") auto
  note pc = printRows_consistent [OF cons acc p]
  have "permissionsOf e row = [''UNKNOWN''] \<and> csvLine row ''UNKNOWN'' \<in> set (written w')"
    if "row \<in> set rows" "unresolved e row" for row
  proof -
    from that(2) have u: "permissionsOf e row = [''UNKNOWN'']" by (simp add: permissionsOf_def)
    from that(1) have "set (map (csvLine row) (permissionsOf e row)) \<subseteq> set (written w')"
      using pc by auto
    with u show ?thesis by simp
  qed
  with p pc show "\<exists>rm' w'. printRows e rm w rows = (rm', w')
            \<and> written w' = written w @ concat (map (\<lambda>row. map (csvLine row) (permissionsOf e row)) rows)
            \<and> (\<forall>row \<in> set rows. unresolved e row \<longrightarrow>
                  permissionsOf e row = [''UNKNOWN'']
                  \<and> csvLine row ''UNKNOWN'' \<in> set (written w')
                  \<and> LogText (''Error getting permissions for '' @ Role row @ newline) \<in> set (errlog w'))"
    by blast
next
  show "\<forall>nf rm0 w3 w4.
          osStat e filename = Some nf \<and> osCreate e (''tmp.'' @ filename) = None
          \<and> osRename e (''tmp.'' @ filename) filename = None
          \<and> (\<forall>accepted. writerFlush e accepted = None) \<and> fileClose e = None
          \<and> NewResourceManager e
               ((called (OsCreate (''tmp.'' @ filename)) (called (OsStat filename) w))
                  \<lparr>written := [''Resource,Type,Member,Role,Permission'' @ newline]\<rparr>)
               cp orgId0 projectId0 = Inr (Inr rm0, w3)
          \<and> GetAllPolicyRows e rm0 w3 = Inr ((Some rows, None), w4)
          \<longrightarrow> (\<exists>w'. printToCsv e w filename cp orgId0 projectId0 = Inr (None, w')
                 \<and> written w' = (''Resource,Type,Member,Role,Permission'' @ newline)
                      # concat (map (\<lambda>row. map (csvLine row) (permissionsOf e row)) rows)
                 \<and> (\<forall>row \<in> set rows. unresolved e row \<longrightarrow>
                       LogText (''Error getting permissions for '' @ Role row @ newline)
                         \<in> set (errlog w')))"
    using printToCsv_prints [OF acc] by blast
qed

text \<open>
  The binding of project \<open>P\<close> names the unknown role \<open>roles/none\<close>: the run returns no
  error, the rows of the organization are printed with their permissions, the row of
  the project with \<open>UNKNOWN\<close>.
\<close>

theorem unresolved_rows_printed_witness:
  "unresolved env_unknown \<lparr>Resource = ''P'', Type = ''project'', Role = ''roles/none'', Member = ''user:b@x.com''\<rparr>
   \<and> (\<exists>w'. printToCsv env_unknown world0 ''out.csv'' [] ''O'' [] = Inr (None, w')
      \<and> written w' =
          [''Resource,Type,Member,Role,Permission'' @ newline,
           ''O,organization,user:a@x.com,roles/viewer,permA'' @ newline,
           ''O,organization,user:a@x.com,roles/viewer,permB'' @ newline,
           ''O,organization,group:g@x.com,roles/viewer,permA'' @ newline,
           ''O,organization,group:g@x.com,roles/viewer,permB'' @ newline,
           ''P,project,user:b@x.com,roles/none,UNKNOWN'' @ newline]
      \<and> errlog w' =
          [LogText (''Error getting permissions for roles/none'' @ newline),
           LogError (RowError \<lparr>Resource = ''P'', Type = ''project'', Role = ''roles/none'',
                                Member = ''user:b@x.com''\<rparr>
                       (UriError ''roles/none'' (Collab ''not found'')))])"
proof -
  have acc: "\<forall>accepted text. fprintf env_unknown accepted text = None"
    by (simp add: env_unknown_def env_org_def env_base_def)
  have cons: "consistent env_unknown rm_O"
    by (simp add: consistent_def rm_O_def)
  note defs = env_unknown_def env_org_def env_base_def rm_O_def world0_def
    printToCsv_def NewResourceManager_def GetAllPolicyRows_def GetOrgPolicyRows_def
    GetFolderPolicyRows_def GetProjectPolicyRows_def ProjectsList_def ProjectsListByFilter_def
    GetIamPolicyForOrganization_eq GetIamPolicyForFolder_eq GetIamPolicyForProject_eq
    FoldersList_def normalV1_def normalV2_def Let_def called_def logged_def printed_def
    Row_Print_def GetRolePermissions_def GetRole_def getRoleByUri_def tryUri_def rolesOnly_def
    csvLine_def viewer_def editor_def myrole_def unresolved_def
  have un: "unresolved env_unknown
      \<lparr>Resource = ''P'', Type = ''project'', Role = ''roles/none'', Member = ''user:b@x.com''\<rparr>"
    by (simp add: defs)
  have run: "\<exists>w'. printToCsv env_unknown world0 ''out.csv'' [] ''O'' [] = Inr (None, w')
      \<and> written w' =
          [''Resource,Type,Member,Role,Permission'' @ newline,
           ''O,organization,user:a@x.com,roles/viewer,permA'' @ newline,
           ''O,organization,user:a@x.com,roles/viewer,permB'' @ newline,
           ''O,organization,group:g@x.com,roles/viewer,permA'' @ newline,
           ''O,organization,group:g@x.com,roles/viewer,permB'' @ newline,
           ''P,project,user:b@x.com,roles/none,UNKNOWN'' @ newline]
      \<and> errlog w' =
          [LogText (''Error getting permissions for roles/none'' @ newline),
           LogError (RowError \<lparr>Resource = ''P'', Type = ''project'', Role = ''roles/none'',
                                Member = ''user:b@x.com''\<rparr>
                       (UriError ''roles/none'' (Collab ''not found'')))]"
    by (simp add: defs)
  from unresolved_rows_printed [OF acc cons, of world0
      "[\<lparr>Resource = ''P'', Type = ''project'', Role = ''roles/none'', Member = ''user:b@x.com''\<rparr>]"]
    un run
  show ?thesis by blast
qed

end
